theory Spec2Isabelle
  imports Complex_Main "HOL-Library.Sublist" "HOL-Library.Log_Nat"
begin

section \<open>Data model (types/api.ts)\<close>

text \<open>
  The client mirrors the backend's records as TypeScript interfaces. Only the fields that
  the modelled handlers read or write are kept; the untyped \<open>metadata\<close> dictionaries
  play no role in them and are left out. Strings are \<open>string\<close>; a field declared
  optional (\<open>description?: string\<close>) is an \<open>option\<close>, with \<open>None\<close> for
  \<open>undefined\<close>.
\<close>

record Graph =
  graph_id :: string
  name :: string
  description :: "string option"
  created_at :: string
  node_count :: int
  edge_count :: int

text \<open>A browser \<open>File\<close>: its name and its content.\<close>

record File =
  file_name :: string
  file_content :: string

datatype layout = Force | Hierarchical | Circular

datatype view = GraphView | Timeline

text \<open>The key of a layout as it is sent to the backend.\<close>

fun layout_key :: "layout \<Rightarrow> string" where
  "layout_key Force = ''force''"
| "layout_key Hierarchical = ''hierarchical''"
| "layout_key Circular = ''circular''"


section \<open>The API layer (services/api.ts)\<close>

text \<open>
  Every static method of \<open>ApiService\<close> issues exactly one request through the axios
  client. A call of a method is a value of \<open>api_call\<close>, carrying the method's
  arguments in the order of the source:
  \<^item> \<open>UploadDocument file graphId extractEntities extractRelationships\<close>;
  \<^item> \<open>SendChatMessage message graph_id session_id include_sources max_tokens\<close>;
  \<^item> \<open>SearchGraph graphId query limit\<close>;
  \<^item> \<open>GetVisualizationData graph_id layout_type include_timestamps max_nodes
     min_edge_weight node_types edge_types\<close>;
  \<^item> \<open>GetTimelineData graph_id start_date end_date granularity\<close>;
  \<^item> \<open>GetSubgraph graphId nodeId depth limit\<close>.
\<close>

datatype http_method = GET | POST | DELETE

datatype api_call =
    ListGraphs
  | CreateGraph string "string option"
  | GetGraph string
  | DeleteGraph string
  | GetGraphStats string
  | UploadDocument File string bool bool
  | GetProcessingStatus string
  | ListDocuments string
  | DeleteDocument string
  | SendChatMessage string string string bool nat
  | GetChatSessions "string option"
  | GetChatSession string
  | DeleteChatSession string
  | ClearChatSession string
  | ExportChatSession string
  | SearchGraph string string int
  | GetVisualizationData string string bool nat real "string list option" "string list option"
  | GetTimelineData string "string option" "string option" "string option"
  | GetSubgraph string string int int
  | HealthCheck

text \<open>The HTTP verb of each method (\<open>apiClient.get\<close>, \<open>.post\<close>, \<open>.delete\<close>).\<close>

fun request_method :: "api_call \<Rightarrow> http_method" where
  "request_method ListGraphs = GET"
| "request_method (CreateGraph n d) = POST"
| "request_method (GetGraph g) = GET"
| "request_method (DeleteGraph g) = DELETE"
| "request_method (GetGraphStats g) = GET"
| "request_method (UploadDocument f g ee er) = POST"
| "request_method (GetProcessingStatus d) = GET"
| "request_method (ListDocuments g) = GET"
| "request_method (DeleteDocument d) = DELETE"
| "request_method (SendChatMessage m g s i k) = POST"
| "request_method (GetChatSessions g) = GET"
| "request_method (GetChatSession s) = GET"
| "request_method (DeleteChatSession s) = DELETE"
| "request_method (ClearChatSession s) = POST"
| "request_method (ExportChatSession s) = GET"
| "request_method (SearchGraph g q l) = POST"
| "request_method (GetVisualizationData g l t m w ns es) = POST"
| "request_method (GetTimelineData g s e gr) = POST"
| "request_method (GetSubgraph g n d l) = GET"
| "request_method HealthCheck = GET"

text \<open>
  The path handed to the axios client, relative to the base URL. A template literal
  \<open>`/graphs/${graphId}/stats`\<close> is the concatenation of its pieces.
\<close>

fun request_path :: "api_call \<Rightarrow> string" where
  "request_path ListGraphs = ''/graphs/list''"
| "request_path (CreateGraph n d) = ''/graphs/create''"
| "request_path (GetGraph g) = ''/graphs/'' @ g"
| "request_path (DeleteGraph g) = ''/graphs/'' @ g"
| "request_path (GetGraphStats g) = ''/graphs/'' @ g @ ''/stats''"
| "request_path (UploadDocument f g ee er) = ''/documents/upload''"
| "request_path (GetProcessingStatus d) = ''/documents/status/'' @ d"
| "request_path (ListDocuments g) = ''/documents/list/'' @ g"
| "request_path (DeleteDocument d) = ''/documents/'' @ d"
| "request_path (SendChatMessage m g s i k) = ''/chat/message''"
| "request_path (GetChatSessions g) = ''/chat/sessions''"
| "request_path (GetChatSession s) = ''/chat/sessions/'' @ s"
| "request_path (DeleteChatSession s) = ''/chat/sessions/'' @ s"
| "request_path (ClearChatSession s) = ''/chat/sessions/'' @ s @ ''/clear''"
| "request_path (ExportChatSession s) = ''/chat/sessions/'' @ s @ ''/export''"
| "request_path (SearchGraph g q l) = ''/chat/search''"
| "request_path (GetVisualizationData g l t m w ns es) = ''/visualizations/graph-data''"
| "request_path (GetTimelineData g s e gr) = ''/visualizations/timeline''"
| "request_path (GetSubgraph g n d l) = ''/visualizations/subgraph/'' @ g"
| "request_path HealthCheck = ''/health''"

text \<open>
  The four endpoint families of the interface description: graph management, documents,
  chat and visualization. A path falls under a family when it starts with the family's
  route prefix.
\<close>

definition route_groups :: "string list" where
  "route_groups = [''/graphs/'', ''/documents/'', ''/chat/'', ''/visualizations/'']"

definition in_route_groups :: "string \<Rightarrow> bool" where
  "in_route_groups p = list_ex (\<lambda>g. prefix g p) route_groups"


section \<open>Asynchronous calls\<close>

text \<open>
  A handler awaits a call of the API layer; the backend is not part of the client, so the
  way the awaited promise settles is an input of the model. A rejected promise carries
  the thrown value: an instance of \<open>Error\<close> with its message, or any other value,
  with its \<open>message\<close> property when it has one. The components import an object
  \<open>apiService\<close> from the services module, which exports the class \<open>ApiService\<close>
  only; its methods are taken to be the static methods of \<open>ApiService\<close> of the same
  names, and a fulfilled call yields the payload the component goes on to use.

  The run of a handler yields the component state it leaves, the way its own promise
  completes, and the calls of the API layer it issued, in order. The code after an
  \<open>await\<close> runs on the state current when the call settles, while the values the
  closure captured are those of the render the handler was created in. For
  \<open>deleteGraph\<close> and for the continuation of the chat handler the two are separate
  arguments; the other handlers are run with no other state update between their start
  and their end.
\<close>

datatype thrown = ErrorInstance string | OtherValue "string option"

datatype 'a settled = Fulfilled 'a | Rejected thrown

datatype completion = Returned | Threw thrown

record 's run =
  final :: 's
  completion :: completion
  issued :: "api_call list"


section \<open>The graph context (contexts/GraphContext.tsx)\<close>

record GraphContext =
  graphs :: "Graph list"
  selectedGraph :: "Graph option"
  loading :: bool
  error :: "string option"

text \<open>
  \<open>refreshGraphs\<close>: the awaited \<open>ApiService.listGraphs()\<close> resolves to the list
  \<open>response.data.graphs\<close> or rejects. The \<open>finally\<close> block runs on both branches.
\<close>

definition refreshGraphs :: "Graph list settled \<Rightarrow> GraphContext \<Rightarrow> GraphContext run" where
  "refreshGraphs response st =
     (let st1 = st\<lparr>loading := True, error := None\<rparr>;
          st2 = (case response of
                   Fulfilled gs \<Rightarrow>
                     (let st' = st1\<lparr>graphs := gs\<rparr> in
                      if length gs > 0 \<and> selectedGraph st = None
                      then st'\<lparr>selectedGraph := Some (gs ! 0)\<rparr> else st')
                 | Rejected err \<Rightarrow> st1\<lparr>error := Some ''Failed to load graphs''\<rparr>)
      in \<lparr>final = st2\<lparr>loading := False\<rparr>, completion = Returned, issued = [ListGraphs]\<rparr>)"

text \<open>\<open>selectGraph\<close>: \<open>Array.prototype.find\<close> returns the first match or \<open>undefined\<close>.\<close>

definition selectGraph :: "string \<Rightarrow> GraphContext \<Rightarrow> GraphContext" where
  "selectGraph graphId st =
     (case find (\<lambda>g. graph_id g = graphId) (graphs st) of
        Some graph \<Rightarrow> st\<lparr>selectedGraph := Some graph\<rparr>
      | None \<Rightarrow> st)"

text \<open>
  \<open>createGraph\<close>: on success the new graph is appended by a functional updater,
  selected and returned; on failure the message is stored and the error is thrown again.
\<close>

definition createGraph ::
  "string \<Rightarrow> string option \<Rightarrow> Graph settled \<Rightarrow> GraphContext \<Rightarrow> GraphContext run" where
  "createGraph nm descr response live =
     (case response of
        Fulfilled newGraph \<Rightarrow>
          \<lparr>final = live\<lparr>graphs := graphs live @ [newGraph], selectedGraph := Some newGraph\<rparr>,
           completion = Returned, issued = [CreateGraph nm descr]\<rparr>
      | Rejected err \<Rightarrow>
          \<lparr>final = live\<lparr>error := Some ''Failed to create graph''\<rparr>,
           completion = Threw err, issued = [CreateGraph nm descr]\<rparr>)"

text \<open>
  \<open>deleteGraph\<close> awaits the call first. On success \<open>setGraphs(prev => ...)\<close>
  filters the list current at that time (\<open>live\<close>), while the test
  \<open>selectedGraph?.graph_id === graphId\<close> and \<open>remainingGraphs\<close> read
  \<open>selectedGraph\<close> and \<open>graphs\<close> as the closure captured them (\<open>captured\<close>,
  the state of the render the handler comes from). On failure the message is stored and
  the error is thrown again.
\<close>

definition deleteGraph ::
  "string \<Rightarrow> unit settled \<Rightarrow> GraphContext \<Rightarrow> GraphContext \<Rightarrow> GraphContext run" where
  "deleteGraph graphId response captured live =
     (case response of
        Fulfilled u \<Rightarrow>
          (let st1 = live\<lparr>graphs := filter (\<lambda>g. graph_id g \<noteq> graphId) (graphs live)\<rparr>;
               st2 = (if map_option graph_id (selectedGraph captured) = Some graphId
                      then (let remainingGraphs =
                                  filter (\<lambda>g. graph_id g \<noteq> graphId) (graphs captured)
                            in st1\<lparr>selectedGraph :=
                                 (if length remainingGraphs > 0 then Some (remainingGraphs ! 0)
                                  else None)\<rparr>)
                      else st1)
           in \<lparr>final = st2, completion = Returned, issued = [DeleteGraph graphId]\<rparr>)
      | Rejected err \<Rightarrow>
          \<lparr>final = live\<lparr>error := Some ''Failed to delete graph''\<rparr>,
           completion = Threw err, issued = [DeleteGraph graphId]\<rparr>)"

text \<open>
  Every component renders its error state as
  \<open>{error && <Alert severity="error">{error}</Alert>}\<close>: \<open>null\<close> and the empty
  string are falsy and show no banner.
\<close>

definition alert_banner :: "string option \<Rightarrow> string option" where
  "alert_banner e = (case e of None \<Rightarrow> None | Some m \<Rightarrow> if m = [] then None else Some m)"


section \<open>Strings and numbers of the host language\<close>

text \<open>
  A template literal \<open>`msg_${Date.now()}`\<close> renders the number in decimal.
  \<open>Date.now()\<close> is a count of milliseconds, a natural number here.
\<close>

function show_nat :: "nat \<Rightarrow> string" where
  "show_nat n =
     (if n < 10 then [char_of (48 + n)]
      else show_nat (n div 10) @ [char_of (48 + n mod 10)])"
  by pat_completeness auto
termination
  by (relation "measure (\<lambda>n. n)") auto

declare show_nat.simps [simp del]

text \<open>
  \<open>String.prototype.trim\<close> strips white space and line terminators from both ends. A
  \<open>char\<close> stands for a code unit below 256; the white space among these is tab, line
  feed, vertical tab, form feed, carriage return, space and no-break space.
\<close>

definition is_ws :: "char \<Rightarrow> bool" where
  "is_ws c = (of_char c \<in> {9, 10, 11, 12, 13, 32, 160 :: nat})"

definition trim :: "string \<Rightarrow> string" where
  "trim s = rev (dropWhile is_ws (rev (dropWhile is_ws s)))"

text \<open>
  \<open>err instanceof Error ? err.message : fallback\<close>, as the chat and the visualization
  write it, and \<open>err?.message || 'Unknown error'\<close>, as the document loader does: there
  an absent or empty message gives the fallback.
\<close>

fun message_or :: "thrown \<Rightarrow> string \<Rightarrow> string" where
  "message_or (ErrorInstance m) fallback = m"
| "message_or (OtherValue v) fallback = fallback"

fun message_property :: "thrown \<Rightarrow> string option" where
  "message_property (ErrorInstance m) = Some m"
| "message_property (OtherValue v) = v"

definition truthy_message_or :: "thrown \<Rightarrow> string \<Rightarrow> string" where
  "truthy_message_or err fallback =
     (case message_property err of
        None \<Rightarrow> fallback
      | Some m \<Rightarrow> if m = [] then fallback else m)"


section \<open>The chat interface (component ChatInterface)\<close>

datatype role = User | Assistant

text \<open>An entry of \<open>sources\<close> or \<open>context_nodes\<close> is kept as its \<open>node_id\<close>.\<close>

record ChatMessage =
  id_msg :: string
  role :: role
  content :: string
  timestamp :: string
  session_id :: string
  sources :: "string list option"
  context_nodes :: "string list option"

record ChatResponse =
  response :: string
  response_sources :: "string list"
  response_context_nodes :: "string list option"

record ChatInterface =
  messages :: "ChatMessage list"
  input :: string
  isLoading :: bool
  error_chat :: "string option"
  sessionId :: string

text \<open>
  What one run of \<open>handleSendMessage\<close> reads from outside the component: the clock when
  the user message is built (\<open>Date.now()\<close> and \<open>new Date().toISOString()\<close>), the way
  \<open>sendChatMessage\<close> settles, the clock when the assistant message is built, and
  whether the optional \<open>onMessageSent\<close> callback throws (\<open>None\<close>: it is absent or
  returns).
\<close>

record chat_env =
  now_user :: nat
  iso_user :: string
  reply :: "ChatResponse settled"
  now_assistant :: nat
  iso_assistant :: string
  onMessageSent_throws :: "thrown option"

text \<open>
  The handler in three parts: the guard, the updates up to the \<open>await\<close>
  (\<open>send_begin\<close>: the request is in flight in the state it leaves), and the
  continuation (\<open>send_settle\<close>: the rest of the \<open>try\<close> block or the
  \<open>catch\<close> block, then the \<open>finally\<close> block), which runs on the state current
  when the call settles and reads the session id the closure captured.
\<close>

definition send_begin :: "chat_env \<Rightarrow> ChatInterface \<Rightarrow> ChatInterface" where
  "send_begin env st =
     (let userMessage =
            \<lparr>id_msg = ''msg_'' @ show_nat (now_user env), role = User,
             content = trim (input st), timestamp = iso_user env,
             session_id = sessionId st, sources = None, context_nodes = None\<rparr>
      in st\<lparr>messages := messages st @ [userMessage], input := [],
             isLoading := True, error_chat := None\<rparr>)"

definition send_settle :: "string \<Rightarrow> chat_env \<Rightarrow> ChatInterface \<Rightarrow> ChatInterface" where
  "send_settle sid env live =
     (let st2 =
            (case reply env of
               Fulfilled responseData \<Rightarrow>
                 (let assistantMessage =
                        \<lparr>id_msg = ''msg_'' @ show_nat (now_assistant env) @ ''_assistant'',
                         role = Assistant, content = response responseData,
                         timestamp = iso_assistant env, session_id = sid,
                         sources = Some (response_sources responseData),
                         context_nodes = response_context_nodes responseData\<rparr>;
                      st' = live\<lparr>messages := messages live @ [assistantMessage]\<rparr>
                  in (case onMessageSent_throws env of
                        None \<Rightarrow> st'
                      | Some err \<Rightarrow>
                          st'\<lparr>error_chat := Some (message_or err ''Failed to send message'')\<rparr>))
             | Rejected err \<Rightarrow>
                 live\<lparr>error_chat := Some (message_or err ''Failed to send message'')\<rparr>)
      in st2\<lparr>isLoading := False\<rparr>)"

definition handleSendMessage :: "Graph option \<Rightarrow> chat_env \<Rightarrow> ChatInterface \<Rightarrow> ChatInterface run" where
  "handleSendMessage selGraph env st =
     (if trim (input st) = [] \<or> selGraph = None \<or> isLoading st
      then \<lparr>final = st, completion = Returned, issued = []\<rparr>
      else
        (case selGraph of
           None \<Rightarrow> \<lparr>final = st, completion = Returned, issued = []\<rparr>
         | Some sg \<Rightarrow>
             \<lparr>final = send_settle (sessionId st) env (send_begin env st),
              completion = Returned,
              issued = [SendChatMessage (trim (input st)) (graph_id sg) (sessionId st)
                          True 500]\<rparr>))"


section \<open>The document loader (components/DocumentLoader.tsx)\<close>

record DocumentResponse =
  document_id :: string
  filename :: string
  file_path :: string
  content_type :: string
  size_doc :: nat
  status :: string
  uploaded_at :: string

text \<open>\<open>Document\<close> is the response with \<open>id\<close> added.\<close>

record Document = DocumentResponse +
  id_doc :: string

record DocumentLoader =
  documents :: "Document list"
  uploadingFiles :: "string set"
  error_doc :: "string option"
  success :: "string option"
  uploadDialog :: bool
  selectedFiles :: "File list"
  metadata :: "(string \<times> string) list"

text \<open>
  What one iteration of the upload loop reads from outside: \<open>Date.now()\<close> when the
  file's identifier is built, the way \<open>uploadDocument\<close> settles, and whether the
  optional \<open>onDocumentUploaded\<close> callback throws.
\<close>

record upload_io =
  now_upload :: nat
  upload_result :: "DocumentResponse settled"
  onDocumentUploaded_throws :: "thrown option"

definition fileId :: "File \<Rightarrow> upload_io \<Rightarrow> string" where
  "fileId file io = file_name file @ ''-'' @ show_nat (now_upload io)"

definition upload_failure :: "File \<Rightarrow> thrown \<Rightarrow> string" where
  "upload_failure file err =
     ''Failed to upload '' @ file_name file @ '': '' @ truthy_message_or err ''Unknown error''"

text \<open>
  One iteration of \<open>for (const file of selectedFiles)\<close> in three parts: up to the
  \<open>await\<close> (the request is in flight in the state \<open>upload_begin\<close> leaves), the rest
  of the \<open>try\<close> block or the \<open>catch\<close> block once the request has settled, and the
  \<open>finally\<close> block.
\<close>

definition upload_begin :: "File \<Rightarrow> upload_io \<Rightarrow> DocumentLoader \<Rightarrow> DocumentLoader" where
  "upload_begin file io st = st\<lparr>uploadingFiles := insert (fileId file io) (uploadingFiles st)\<rparr>"

definition upload_settle :: "File \<Rightarrow> upload_io \<Rightarrow> DocumentLoader \<Rightarrow> DocumentLoader" where
  "upload_settle file io st =
     (case upload_result io of
        Fulfilled r \<Rightarrow>
          (let documentData =
                 \<lparr>document_id = document_id r, filename = filename r, file_path = file_path r,
                  content_type = content_type r, size_doc = size_doc r, status = status r,
                  uploaded_at = uploaded_at r, id_doc = document_id r\<rparr>;
               st' = st\<lparr>documents := documents st @ [documentData],
                        success := Some (''Successfully uploaded '' @ file_name file)\<rparr>
           in (case onDocumentUploaded_throws io of
                 None \<Rightarrow> st'
               | Some err \<Rightarrow> st'\<lparr>error_doc := Some (upload_failure file err)\<rparr>))
      | Rejected err \<Rightarrow> st\<lparr>error_doc := Some (upload_failure file err)\<rparr>)"

definition upload_finally :: "File \<Rightarrow> upload_io \<Rightarrow> DocumentLoader \<Rightarrow> DocumentLoader" where
  "upload_finally file io st = st\<lparr>uploadingFiles := uploadingFiles st - {fileId file io}\<rparr>"

text \<open>The loop body: the state and the log of issued calls before, the file and its inputs.\<close>

definition upload_file ::
  "Graph \<Rightarrow> DocumentLoader \<times> api_call list \<Rightarrow> File \<times> upload_io \<Rightarrow> DocumentLoader \<times> api_call list" where
  "upload_file sg acc fio =
     (upload_finally (fst fio) (snd fio)
        (upload_settle (fst fio) (snd fio) (upload_begin (fst fio) (snd fio) (fst acc))),
      snd acc @ [UploadDocument (fst fio) (graph_id sg) True True])"

text \<open>
  \<open>handleUpload\<close>; \<open>io k\<close> is what the \<open>k\<close>-th iteration reads from outside. The
  files are those of \<open>selectedFiles\<close> when the handler is invoked.
\<close>

definition batch :: "(nat \<Rightarrow> upload_io) \<Rightarrow> File list \<Rightarrow> (File \<times> upload_io) list" where
  "batch io files = zip files (map io [0..<length files])"

definition handleUpload ::
  "Graph option \<Rightarrow> (nat \<Rightarrow> upload_io) \<Rightarrow> DocumentLoader \<Rightarrow> DocumentLoader run" where
  "handleUpload selGraph io st =
     (case selGraph of
        None \<Rightarrow>
          \<lparr>final = st\<lparr>error_doc := Some ''Please select a graph first''\<rparr>,
           completion = Returned, issued = []\<rparr>
      | Some sg \<Rightarrow>
          (let st1 = st\<lparr>uploadDialog := False\<rparr>;
               done = foldl (upload_file sg) (st1, []) (batch io (selectedFiles st))
           in \<lparr>final = (fst done)\<lparr>selectedFiles := [], metadata := []\<rparr>,
               completion = Returned, issued = snd done\<rparr>))"


section \<open>The graph visualization (components/GraphVisualization.tsx)\<close>

text \<open>
  The component reads \<open>id\<close>, \<open>node_type\<close>, \<open>created_at\<close>, \<open>x\<close> and \<open>y\<close> of
  a node and \<open>source_id\<close>, \<open>target_id\<close> and \<open>weight\<close> of an edge. A JavaScript
  number is a real number here; the one place where the component can meet \<open>NaN\<close>,
  the time of an unparsable date, is \<open>None\<close>. Comparisons of doubles are exact; the
  layout is written with exact arithmetic, the playback below with the rounding of
  binary64.
\<close>

record GraphNode =
  id_node :: string
  node_type :: string
  created_at_node :: "string option"
  node_x :: "real option"
  node_y :: "real option"

record GraphEdge =
  id_edge :: string
  source_id :: string
  target_id :: string
  weight :: "real option"

record VisualizationData =
  nodes :: "GraphNode list"
  edges :: "GraphEdge list"

record GraphVisualization =
  data :: "VisualizationData option"
  loading_viz :: bool
  error_viz :: "string option"
  viewMode :: view
  layoutType :: layout
  timeRange :: "real \<times> real"
  currentTime :: real
  isPlaying :: bool
  minEdgeWeight :: real
  nodeTypeFilter :: "string list"
  edgeTypeFilter :: "string list"

text \<open>
  \<open>loadVisualizationData\<close>. The date parser of the host, \<open>new Date(s).getTime()\<close>, is
  the parameter \<open>getTime\<close>: milliseconds, or \<open>None\<close> for \<open>NaN\<close>. The awaited
  \<open>getVisualizationData\<close> resolves to the data the component stores, or rejects.
\<close>

definition loadVisualizationData ::
  "(string option \<Rightarrow> int option) \<Rightarrow> Graph option \<Rightarrow> VisualizationData settled
     \<Rightarrow> GraphVisualization \<Rightarrow> GraphVisualization run" where
  "loadVisualizationData getTime selGraph result st =
     (case selGraph of
        None \<Rightarrow> \<lparr>final = st, completion = Returned, issued = []\<rparr>
      | Some sg \<Rightarrow>
          (let st1 = st\<lparr>loading_viz := True, error_viz := None\<rparr>;
               request =
                 GetVisualizationData (graph_id sg) (layout_key (layoutType st))
                   (viewMode st = Timeline) 200 (minEdgeWeight st)
                   (if length (nodeTypeFilter st) > 0 then Some (nodeTypeFilter st) else None)
                   (if length (edgeTypeFilter st) > 0 then Some (edgeTypeFilter st) else None);
               st2 =
                 (case result of
                    Fulfilled vizData \<Rightarrow>
                      (let st' = st1\<lparr>data := Some vizData\<rparr> in
                       if viewMode st = Timeline \<and> length (nodes vizData) > 0
                       then
                         (let timestamps =
                                List.map_filter (\<lambda>n. getTime (created_at_node n)) (nodes vizData)
                          in if length timestamps > 0
                             then st'\<lparr>timeRange := (real_of_int (Min (set timestamps)),
                                                     real_of_int (Max (set timestamps))),
                                      currentTime := real_of_int (Min (set timestamps))\<rparr>
                             else st')
                       else st')
                  | Rejected err \<Rightarrow>
                      st1\<lparr>error_viz := Some (message_or err ''Failed to load visualization data'')\<rparr>)
           in \<lparr>final = st2\<lparr>loading_viz := False\<rparr>, completion = Returned,
               issued = [request]\<rparr>))"

text \<open>
  The timeline filter of \<open>initializeVisualization\<close>: a comparison with \<open>NaN\<close> is
  false, so a node without a parsable date is dropped; \<open>nodeIds\<close> is the set of the
  ids of the nodes kept.
\<close>

definition timeline_nodes :: "(string option \<Rightarrow> int option) \<Rightarrow> real \<Rightarrow> GraphNode list \<Rightarrow> GraphNode list" where
  "timeline_nodes getTime currentTimeMs ns =
     filter (\<lambda>node. case getTime (created_at_node node) of
                       None \<Rightarrow> False
                     | Some nodeTime \<Rightarrow> real_of_int nodeTime \<le> currentTimeMs) ns"

definition timeline_edges :: "GraphNode list \<Rightarrow> GraphEdge list \<Rightarrow> GraphEdge list" where
  "timeline_edges filteredNodes es =
     (let nodeIds = set (map id_node filteredNodes)
      in filter (\<lambda>edge. source_id edge \<in> nodeIds \<and> target_id edge \<in> nodeIds) es)"

text \<open>
  The circular layout: \<open>forEach((node, i) => ...)\<close> writes \<open>x\<close> and \<open>y\<close> of the
  node at index \<open>i\<close>.
\<close>

definition circular_layout :: "real \<Rightarrow> real \<Rightarrow> GraphNode list \<Rightarrow> GraphNode list" where
  "circular_layout width height filteredNodes =
     (let radius = min width height / 3
      in map (\<lambda>(i, node).
                let angle = (real i / real (length filteredNodes)) * 2 * pi
                in node\<lparr>node_x := Some (width / 2 + radius * cos angle),
                        node_y := Some (height / 2 + radius * sin angle)\<rparr>)
             (enumerate 0 filteredNodes))"

text \<open>
  What \<open>initializeVisualization\<close> hands to the renderer (\<open>d3.forceSimulation\<close> and
  the \<open>.data(...)\<close> joins): the nodes, the edges and the layout whose forces are set
  up. Nothing is rendered without data; the SVG element and its container are taken to
  be mounted (the function returns at once otherwise). \<open>width\<close> and \<open>height\<close>
  are the client size of the container.
\<close>

record scene =
  scene_nodes :: "GraphNode list"
  scene_edges :: "GraphEdge list"
  scene_layout :: layout

definition initializeVisualization ::
  "(string option \<Rightarrow> int option) \<Rightarrow> real \<Rightarrow> real \<Rightarrow> GraphVisualization \<Rightarrow> scene option" where
  "initializeVisualization getTime width height st =
     (case data st of
        None \<Rightarrow> None
      | Some d \<Rightarrow>
          (let filteredNodes =
                 (if viewMode st = Timeline
                  then timeline_nodes getTime (currentTime st) (nodes d) else nodes d);
               filteredEdges =
                 (if viewMode st = Timeline
                  then timeline_edges filteredNodes (edges d) else edges d)
           in Some \<lparr>scene_nodes =
                      (case layoutType st of
                         Circular \<Rightarrow> circular_layout width height filteredNodes
                       | Hierarchical \<Rightarrow> filteredNodes
                       | Force \<Rightarrow> filteredNodes),
                    scene_edges = filteredEdges,
                    scene_layout = layoutType st\<rparr>))"

text \<open>
  Arithmetic of binary64: the result of \<open>+\<close>, \<open>-\<close> and \<open>/\<close> on doubles is the
  exact result rounded to the nearest double, ties to the even significand. \<open>rne\<close>
  rounds to the nearest integer, ties to even; \<open>binade a\<close> is the \<open>e\<close> with
  \<open>2^e \<le> a < 2^(e+1)\<close> for positive \<open>a\<close> (\<open>bitlen n\<close> is the number of
  binary digits of \<open>n\<close>); doubles in that binade are the multiples of \<open>2^(e-52)\<close>,
  and below \<open>2^-1022\<close> the multiples of \<open>2^-1074\<close>. Results of magnitude
  \<open>2^1024\<close> and more, which a double holds as \<open>Infinity\<close>, and \<open>NaN\<close> are
  outside the model; the times of the component are timestamps of at most
  \<open>8.64e15\<close> milliseconds in magnitude.
\<close>

definition rne :: "real \<Rightarrow> int" where
  "rne v = (let f = \<lfloor>v\<rfloor>; d = v - of_int f
            in if d < 1 / 2 then f
               else if d > 1 / 2 then f + 1
               else if even f then f else f + 1)"

definition binade :: "real \<Rightarrow> int" where
  "binade a = (if a \<ge> 1 then bitlen \<lfloor>a\<rfloor> - 1
               else (let k = bitlen \<lfloor>1 / a\<rfloor> - 1
                     in if a * 2 powi k = 1 then - k else - k - 1))"

definition round64 :: "real \<Rightarrow> real" where
  "round64 v = (if v = 0 then 0
                else (let q = 2 powi (max (binade \<bar>v\<bar>) (- 1022) - 52)
                      in of_int (rne (v / q)) * q))"

text \<open>
  Timeline playback: the updater the interval passes to \<open>setCurrentTime\<close>, with the
  double arithmetic of \<open>prev + (timeRange[1] - timeRange[0]) / 100\<close> (a subtraction,
  a division and an addition, each rounded), and one firing of the interval, which exists
  only while \<open>isPlaying\<close> holds in timeline mode.
\<close>

definition playback_step :: "GraphVisualization \<Rightarrow> GraphVisualization" where
  "playback_step st =
     (let next = round64 (currentTime st
                   + round64 (round64 (snd (timeRange st) - fst (timeRange st)) / 100))
      in if next \<ge> snd (timeRange st)
         then st\<lparr>isPlaying := False, currentTime := snd (timeRange st)\<rparr>
         else st\<lparr>currentTime := next\<rparr>)"

definition interval_tick :: "GraphVisualization \<Rightarrow> GraphVisualization" where
  "interval_tick st = (if isPlaying st \<and> viewMode st = Timeline then playback_step st else st)"

primrec playback :: "nat \<Rightarrow> GraphVisualization \<Rightarrow> GraphVisualization" where
  "playback 0 st = st"
| "playback (Suc n) st = playback n (interval_tick st)"


section \<open>Concrete values used in the examples\<close>

definition demo_graph :: "string \<Rightarrow> string \<Rightarrow> Graph" where
  "demo_graph gid nm =
     \<lparr>graph_id = gid, name = nm, description = None, created_at = ''2025-06-01T00:00:00Z'',
      node_count = 0, edge_count = 0\<rparr>"

definition demo_context :: "Graph list \<Rightarrow> Graph option \<Rightarrow> GraphContext" where
  "demo_context gs sel = \<lparr>graphs = gs, selectedGraph = sel, loading = False, error = None\<rparr>"

definition demo_chat :: "string \<Rightarrow> bool \<Rightarrow> ChatInterface" where
  "demo_chat txt busy =
     \<lparr>messages = [], input = txt, isLoading = busy, error_chat = None,
      sessionId = ''session_g1_1''\<rparr>"

definition demo_chat_env :: "ChatResponse settled \<Rightarrow> chat_env" where
  "demo_chat_env r =
     \<lparr>now_user = 1700000000000, iso_user = ''2023-11-14T22:13:20.000Z'', reply = r,
      now_assistant = 1700000000900, iso_assistant = ''2023-11-14T22:13:20.900Z'',
      onMessageSent_throws = None\<rparr>"

definition demo_file :: "string \<Rightarrow> File" where
  "demo_file nm = \<lparr>file_name = nm, file_content = ''text''\<rparr>"

definition demo_loader :: "File list \<Rightarrow> string set \<Rightarrow> DocumentLoader" where
  "demo_loader files busy =
     \<lparr>documents = [], uploadingFiles = busy, error_doc = None, success = None,
      uploadDialog = True, selectedFiles = files, metadata = []\<rparr>"

text \<open>The first upload of the example batch is rejected, the later ones succeed.\<close>

definition demo_io :: "nat \<Rightarrow> upload_io" where
  "demo_io k =
     \<lparr>now_upload = 5 + k,
      upload_result =
        (if k = 0 then Rejected (ErrorInstance ''timeout'')
         else Fulfilled \<lparr>document_id = ''d1'', filename = ''b.txt'', file_path = ''/tmp/b.txt'',
                         content_type = ''text/plain'', size_doc = 4, status = ''uploaded'',
                         uploaded_at = ''2025-06-01T00:00:00Z''\<rparr>),
      onDocumentUploaded_throws = None\<rparr>"

definition demo_node :: "string \<Rightarrow> string option \<Rightarrow> GraphNode" where
  "demo_node i c =
     \<lparr>id_node = i, node_type = ''entity'', created_at_node = c, node_x = None, node_y = None\<rparr>"

definition demo_edge :: "string \<Rightarrow> string \<Rightarrow> GraphEdge" where
  "demo_edge a b = \<lparr>id_edge = a @ ''-'' @ b, source_id = a, target_id = b, weight = None\<rparr>"

definition demo_viz ::
  "view \<Rightarrow> layout \<Rightarrow> real \<Rightarrow> bool \<Rightarrow> VisualizationData option \<Rightarrow> GraphVisualization" where
  "demo_viz v l t playing d =
     \<lparr>data = d, loading_viz = False, error_viz = None, viewMode = v, layoutType = l,
      timeRange = (0, 100), currentTime = t, isPlaying = playing, minEdgeWeight = 0,
      nodeTypeFilter = [], edgeTypeFilter = []\<rparr>"

text \<open>Every upload of this batch is rejected.\<close>

definition demo_io_failing :: "nat \<Rightarrow> upload_io" where
  "demo_io_failing k =
     \<lparr>now_upload = 5 + k, upload_result = Rejected (ErrorInstance ''timeout''),
      onDocumentUploaded_throws = None\<rparr>"


text \<open>A stand-in for the date parser: two dates it reads, everything else is invalid.\<close>

definition demo_getTime :: "string option \<Rightarrow> int option" where
  "demo_getTime c =
     (if c = Some ''1970-01-01T00:00:00.010Z'' then Some 10
      else if c = Some ''1970-01-01T00:00:00.020Z'' then Some 20
      else None)"


section \<open>Endpoint families\<close>

text \<open>
  C7, as stated: every method of \<open>ApiService\<close> requests a path under one of the four
  endpoint families (graphs, documents, chat, visualizations). The health check is a
  method of \<open>ApiService\<close> and requests \<open>/health\<close>, which lies under none of them.
\<close>

theorem healthCheck_outside_route_groups:
  "\<not> in_route_groups (request_path HealthCheck)"
  by (simp add: in_route_groups_def route_groups_def)

text \<open>
  C7, amended: every method of \<open>ApiService\<close> other than \<open>healthCheck\<close> requests a
  path that starts with \<open>/graphs/\<close>, \<open>/documents/\<close>, \<open>/chat/\<close> or
  \<open>/visualizations/\<close>, whatever its arguments.
\<close>

theorem api_paths_in_route_groups:
  "c \<noteq> HealthCheck \<Longrightarrow> in_route_groups (request_path c)"
  by (cases c) (simp_all add: in_route_groups_def route_groups_def)

theorem api_paths_in_route_groups_witness:
  "GetGraphStats ''g1'' \<noteq> HealthCheck
   \<and> in_route_groups (request_path (GetGraphStats ''g1''))
   \<and> request_path (GetGraphStats ''g1'') = ''/graphs/g1/stats''"
  using api_paths_in_route_groups [of "GetGraphStats ''g1''"] by simp

section \<open>Selecting a graph\<close>

lemma find_first_index:
  "find P xs = Some x \<Longrightarrow> \<exists>i<length xs. P (xs ! i) \<and> (\<forall>j<i. \<not> P (xs ! j)) \<and> x = xs ! i"
  by (auto simp: find_Some_iff)

lemma find_None_image:
  "(find (\<lambda>g. f g = k) xs = None) = (k \<notin> f ` set xs)"
  by (auto simp: find_None_iff)

text \<open>
  C10: \<open>selectGraph g\<close> sets the selected graph to the first member of the graph list
  whose \<open>graph_id\<close> is \<open>g\<close> when there is one (the member at the least index with
  that id), and leaves the whole state unchanged when no member has that id; so the
  selection it leaves is either the old one or a member of the list.
\<close>

theorem selectGraph_first_match:
  "(g \<in> graph_id ` set (graphs st) \<longrightarrow>
      (\<exists>i<length (graphs st).
          graph_id (graphs st ! i) = g \<and> (\<forall>j<i. graph_id (graphs st ! j) \<noteq> g)
          \<and> selectGraph g st = st\<lparr>selectedGraph := Some (graphs st ! i)\<rparr>))
   \<and> (g \<notin> graph_id ` set (graphs st) \<longrightarrow> selectGraph g st = st)
   \<and> graphs (selectGraph g st) = graphs st
   \<and> (selectedGraph (selectGraph g st) = selectedGraph st
        \<or> (\<exists>x\<in>set (graphs st). graph_id x = g \<and> selectedGraph (selectGraph g st) = Some x))"
proof (cases "find (\<lambda>x. graph_id x = g) (graphs st)")
  case None
  then have "g \<notin> graph_id ` set (graphs st)"
    by (simp add: find_None_image)
  with None show ?thesis
    by (simp add: selectGraph_def)
next
  case (Some x)
  from find_first_index [OF Some] obtain i where
    i: "i < length (graphs st)" "graph_id (graphs st ! i) = g"
       "\<forall>j<i. graph_id (graphs st ! j) \<noteq> g" "x = graphs st ! i"
    by blast
  have sel: "selectGraph g st = st\<lparr>selectedGraph := Some (graphs st ! i)\<rparr>"
    using Some i(4) by (simp add: selectGraph_def)
  have mem: "graphs st ! i \<in> set (graphs st)"
    using i(1) by simp
  show ?thesis
    using i(1,2,3) sel mem by auto
qed

theorem selectGraph_first_match_witness:
  "''g2'' \<in> graph_id ` set (graphs (demo_context
       [demo_graph ''g1'' ''one'', demo_graph ''g2'' ''two'', demo_graph ''g2'' ''three''] None))
   \<and> ''g9'' \<notin> graph_id ` set (graphs (demo_context
       [demo_graph ''g1'' ''one'', demo_graph ''g2'' ''two'', demo_graph ''g2'' ''three''] None))
   \<and> selectedGraph (selectGraph ''g2'' (demo_context
       [demo_graph ''g1'' ''one'', demo_graph ''g2'' ''two'', demo_graph ''g2'' ''three''] None))
     = Some (demo_graph ''g2'' ''two'')
   \<and> selectGraph ''g9'' (demo_context
       [demo_graph ''g1'' ''one'', demo_graph ''g2'' ''two'', demo_graph ''g2'' ''three''] None)
     = demo_context
       [demo_graph ''g1'' ''one'', demo_graph ''g2'' ''two'', demo_graph ''g2'' ''three''] None"
  using selectGraph_first_match [of "''g2''" "demo_context
       [demo_graph ''g1'' ''one'', demo_graph ''g2'' ''two'', demo_graph ''g2'' ''three''] None"]
    selectGraph_first_match [of "''g9''" "demo_context
       [demo_graph ''g1'' ''one'', demo_graph ''g2'' ''two'', demo_graph ''g2'' ''three''] None"]
  by (simp add: selectGraph_def demo_context_def demo_graph_def)

section \<open>Deleting a graph\<close>

lemma deleteGraph_fresh:
  "graphs (final (deleteGraph g (Fulfilled u) st st)) = filter (\<lambda>x. graph_id x \<noteq> g) (graphs st)
   \<and> (\<forall>s. selectedGraph st = Some s \<and> graph_id s = g \<longrightarrow>
         selectedGraph (final (deleteGraph g (Fulfilled u) st st))
           = (case graphs (final (deleteGraph g (Fulfilled u) st st)) of
                [] \<Rightarrow> None | x # rest \<Rightarrow> Some x))
   \<and> (\<forall>s. selectedGraph st = Some s \<and> graph_id s \<noteq> g \<longrightarrow>
         selectedGraph (final (deleteGraph g (Fulfilled u) st st)) = selectedGraph st)
   \<and> (selectedGraph st = None \<longrightarrow>
         selectedGraph (final (deleteGraph g (Fulfilled u) st st)) = None)"
  by (cases "filter (\<lambda>x. graph_id x \<noteq> g) (graphs st)")
     (auto simp: deleteGraph_def Let_def)

lemma deleteGraph_list:
  "graphs (final (deleteGraph g (Fulfilled u) captured live))
     = filter (\<lambda>x. graph_id x \<noteq> g) (graphs live)"
  by (simp add: deleteGraph_def Let_def)

text \<open>
  C8: when \<open>deleteGraph g\<close> succeeds the list is the previous one without the graphs
  of id \<open>g\<close>, and the selection moves to the first remaining graph (or to null)
  exactly when the selected graph had id \<open>g\<close>. The code keeps to this when nothing
  updates the state between the render the handler comes from and the end of the request
  (\<open>deleteGraph_fresh\<close>). It does not when two deletions are in flight: with the
  graphs \<open>g1\<close>, \<open>g2\<close>, \<open>g3\<close> and \<open>g1\<close> selected, \<open>deleteGraph g1\<close>
  and \<open>deleteGraph g2\<close> are both invoked from that render; the first to succeed
  selects \<open>g2\<close>, the second removes \<open>g2\<close> from the list but tests the captured
  selection \<open>g1\<close> and leaves the selection alone, so that the list is \<open>[g3]\<close>
  and the deleted graph \<open>g2\<close> is selected.
\<close>

theorem deleteGraph_overlapping:
  "selectedGraph (final (deleteGraph ''g1'' (Fulfilled ())
       (demo_context [demo_graph ''g1'' ''one'', demo_graph ''g2'' ''two'',
          demo_graph ''g3'' ''three''] (Some (demo_graph ''g1'' ''one'')))
       (demo_context [demo_graph ''g1'' ''one'', demo_graph ''g2'' ''two'',
          demo_graph ''g3'' ''three''] (Some (demo_graph ''g1'' ''one'')))))
     = Some (demo_graph ''g2'' ''two'')
   \<and> graphs (final (deleteGraph ''g2'' (Fulfilled ())
       (demo_context [demo_graph ''g1'' ''one'', demo_graph ''g2'' ''two'',
          demo_graph ''g3'' ''three''] (Some (demo_graph ''g1'' ''one'')))
       (final (deleteGraph ''g1'' (Fulfilled ())
          (demo_context [demo_graph ''g1'' ''one'', demo_graph ''g2'' ''two'',
             demo_graph ''g3'' ''three''] (Some (demo_graph ''g1'' ''one'')))
          (demo_context [demo_graph ''g1'' ''one'', demo_graph ''g2'' ''two'',
             demo_graph ''g3'' ''three''] (Some (demo_graph ''g1'' ''one'')))))))
     = [demo_graph ''g3'' ''three'']
   \<and> selectedGraph (final (deleteGraph ''g2'' (Fulfilled ())
       (demo_context [demo_graph ''g1'' ''one'', demo_graph ''g2'' ''two'',
          demo_graph ''g3'' ''three''] (Some (demo_graph ''g1'' ''one'')))
       (final (deleteGraph ''g1'' (Fulfilled ())
          (demo_context [demo_graph ''g1'' ''one'', demo_graph ''g2'' ''two'',
             demo_graph ''g3'' ''three''] (Some (demo_graph ''g1'' ''one'')))
          (demo_context [demo_graph ''g1'' ''one'', demo_graph ''g2'' ''two'',
             demo_graph ''g3'' ''three''] (Some (demo_graph ''g1'' ''one'')))))))
     = Some (demo_graph ''g2'' ''two'')"
  by (simp add: deleteGraph_def Let_def demo_context_def demo_graph_def)


section \<open>The send guard of the chat\<close>

lemma dropWhile_all_iff: "(\<forall>x\<in>set (dropWhile P xs). P x) = (\<forall>x\<in>set xs. P x)"
  by (induction xs) auto

lemma trim_Nil_iff: "(trim s = []) = (\<forall>c\<in>set s. is_ws c)"
  by (simp add: trim_def dropWhile_eq_Nil_conv dropWhile_all_iff)

text \<open>
  C9: invoking send when the input is empty or all white space, or when no graph is
  selected, or while a request is in flight (\<open>isLoading\<close>), issues no call of the API
  layer and leaves the whole chat state as it was: the message list, the input field, the
  session id and the error state included.
\<close>

theorem handleSendMessage_blocked:
  "(\<forall>c\<in>set (input st). is_ws c) \<or> selGraph = None \<or> isLoading st \<Longrightarrow>
     handleSendMessage selGraph env st = \<lparr>final = st, completion = Returned, issued = []\<rparr>"
  by (auto simp: handleSendMessage_def trim_Nil_iff)

theorem handleSendMessage_blocked_witness:
  "set (input (demo_chat [CHR '' '', CHR 0x09, CHR 0xA0] False)) \<subseteq> Collect is_ws
   \<and> handleSendMessage (Some (demo_graph ''g1'' ''one'')) (demo_chat_env (Rejected (ErrorInstance ''down'')))
        (demo_chat [CHR '' '', CHR 0x09, CHR 0xA0] False)
      = \<lparr>final = demo_chat [CHR '' '', CHR 0x09, CHR 0xA0] False, completion = Returned, issued = []\<rparr>
   \<and> handleSendMessage None (demo_chat_env (Rejected (ErrorInstance ''down''))) (demo_chat ''hello'' False)
      = \<lparr>final = demo_chat ''hello'' False, completion = Returned, issued = []\<rparr>
   \<and> isLoading (demo_chat ''hello'' True)
   \<and> handleSendMessage (Some (demo_graph ''g1'' ''one'')) (demo_chat_env (Rejected (ErrorInstance ''down'')))
        (demo_chat ''hello'' True)
      = \<lparr>final = demo_chat ''hello'' True, completion = Returned, issued = []\<rparr>"
  using handleSendMessage_blocked [of "demo_chat [CHR '' '', CHR 0x09, CHR 0xA0] False"
          "Some (demo_graph ''g1'' ''one'')" "demo_chat_env (Rejected (ErrorInstance ''down''))"]
    handleSendMessage_blocked [of "demo_chat ''hello'' False" None
          "demo_chat_env (Rejected (ErrorInstance ''down''))"]
    handleSendMessage_blocked [of "demo_chat ''hello'' True" "Some (demo_graph ''g1'' ''one'')"
          "demo_chat_env (Rejected (ErrorInstance ''down''))"]
  by (simp add: demo_chat_def is_ws_def)


section \<open>The loading flag after a network call\<close>

lemma handleSendMessage_run:
  "trim (input st) \<noteq> [] \<Longrightarrow> \<not> isLoading st \<Longrightarrow>
     handleSendMessage (Some sg) env st
       = \<lparr>final = send_settle (sessionId st) env (send_begin env st), completion = Returned,
          issued = [SendChatMessage (trim (input st)) (graph_id sg) (sessionId st) True 500]\<rparr>"
  by (simp add: handleSendMessage_def)

lemma send_settle_reset: "\<not> isLoading (send_settle sid env live)"
  by (simp add: send_settle_def Let_def split: settled.splits option.splits)

lemma send_settle_sessionId: "sessionId (send_settle sid env live) = sessionId live"
  by (simp add: send_settle_def Let_def split: settled.splits option.splits)

lemma send_begin_flag: "isLoading (send_begin env st) \<and> sessionId (send_begin env st) = sessionId st"
  by (simp add: send_begin_def Let_def)

lemma loadVisualizationData_issued:
  "issued (loadVisualizationData getTime (Some sg) result st)
     = [GetVisualizationData (graph_id sg) (layout_key (layoutType st)) (viewMode st = Timeline) 200
          (minEdgeWeight st)
          (if length (nodeTypeFilter st) > 0 then Some (nodeTypeFilter st) else None)
          (if length (edgeTypeFilter st) > 0 then Some (edgeTypeFilter st) else None)]"
  by (simp add: loadVisualizationData_def Let_def)

lemma loadVisualizationData_settings:
  "layoutType (final (loadVisualizationData getTime (Some sg) result st)) = layoutType st
   \<and> viewMode (final (loadVisualizationData getTime (Some sg) result st)) = viewMode st
   \<and> minEdgeWeight (final (loadVisualizationData getTime (Some sg) result st)) = minEdgeWeight st
   \<and> nodeTypeFilter (final (loadVisualizationData getTime (Some sg) result st)) = nodeTypeFilter st
   \<and> edgeTypeFilter (final (loadVisualizationData getTime (Some sg) result st)) = edgeTypeFilter st"
  by (simp add: loadVisualizationData_def Let_def split: settled.splits)

text \<open>
  C6: the chat handler raises \<open>isLoading\<close> before its call (the flag is true in the
  state in which the request is in flight) and its continuation leaves the flag false
  whatever the state it runs on and whether the call was fulfilled or rejected; a run
  that passes the guard is the one followed by the other. \<open>loadVisualizationData\<close>
  and \<open>refreshGraphs\<close> leave their flag false after a run that issued the call,
  whatever the flag was before and on both branches. The component is then ready for
  the same request again: sending the same text again, loading the visualization again
  and refreshing again each issue the request the first run issued.
\<close>

theorem loading_flag_reset:
  "isLoading (send_begin env cst)
   \<and> \<not> isLoading (send_settle sid (env\<lparr>reply := Fulfilled r\<rparr>) live)
   \<and> \<not> isLoading (send_settle sid (env\<lparr>reply := Rejected err\<rparr>) live)
   \<and> (trim (input cst) \<noteq> [] \<and> \<not> isLoading cst \<longrightarrow>
        final (handleSendMessage (Some sg) env cst)
          = send_settle (sessionId cst) env (send_begin env cst)
        \<and> issued (handleSendMessage (Some sg) env cst)
          = [SendChatMessage (trim (input cst)) (graph_id sg) (sessionId cst) True 500]
        \<and> issued (handleSendMessage (Some sg) env'
             ((final (handleSendMessage (Some sg) env cst))\<lparr>input := input cst\<rparr>))
          = issued (handleSendMessage (Some sg) env cst))
   \<and> (issued (handleSendMessage selGraph env cst) \<noteq> [] \<longrightarrow>
       \<not> isLoading (final (handleSendMessage selGraph env cst)))
   \<and> (issued (loadVisualizationData getTime selGraph result vst) \<noteq> [] \<longrightarrow>
       \<not> loading_viz (final (loadVisualizationData getTime selGraph result vst)))
   \<and> issued (loadVisualizationData getTime (Some sg) result vst) \<noteq> []
   \<and> issued (loadVisualizationData getTime (Some sg) result'
         (final (loadVisualizationData getTime (Some sg) result vst)))
       = issued (loadVisualizationData getTime (Some sg) result vst)
   \<and> issued (refreshGraphs resp gst) = [ListGraphs]
   \<and> \<not> loading (final (refreshGraphs resp gst))
   \<and> issued (refreshGraphs resp' (final (refreshGraphs resp gst))) = [ListGraphs]"
proof (intro conjI impI)
  show "isLoading (send_begin env cst)"
    by (simp add: send_begin_flag)
  show "\<not> isLoading (send_settle sid (env\<lparr>reply := Fulfilled r\<rparr>) live)"
    by (rule send_settle_reset)
  show "\<not> isLoading (send_settle sid (env\<lparr>reply := Rejected err\<rparr>) live)"
    by (rule send_settle_reset)
  show "final (handleSendMessage (Some sg) env cst)
          = send_settle (sessionId cst) env (send_begin env cst)"
    if "trim (input cst) \<noteq> [] \<and> \<not> isLoading cst"
    using that by (simp add: handleSendMessage_run)
  show "issued (handleSendMessage (Some sg) env cst)
          = [SendChatMessage (trim (input cst)) (graph_id sg) (sessionId cst) True 500]"
    if "trim (input cst) \<noteq> [] \<and> \<not> isLoading cst"
    using that by (simp add: handleSendMessage_run)
  show "issued (handleSendMessage (Some sg) env'
             ((final (handleSendMessage (Some sg) env cst))\<lparr>input := input cst\<rparr>))
          = issued (handleSendMessage (Some sg) env cst)"
    if h: "trim (input cst) \<noteq> [] \<and> \<not> isLoading cst"
  proof -
    let ?st' = "(final (handleSendMessage (Some sg) env cst))\<lparr>input := input cst\<rparr>"
    have "trim (input ?st') \<noteq> []" "\<not> isLoading ?st'" "sessionId ?st' = sessionId cst"
      using h by (simp_all add: handleSendMessage_run send_settle_reset send_settle_sessionId
          send_begin_flag)
    with h show ?thesis
      by (simp add: handleSendMessage_run)
  qed
  show "\<not> isLoading (final (handleSendMessage selGraph env cst))"
    if "issued (handleSendMessage selGraph env cst) \<noteq> []"
    using that
    by (auto simp: handleSendMessage_def send_settle_reset split: option.splits if_splits)
  show "\<not> loading_viz (final (loadVisualizationData getTime selGraph result vst))"
    if "issued (loadVisualizationData getTime selGraph result vst) \<noteq> []"
    using that by (auto simp: loadVisualizationData_def Let_def split: option.splits)
  show "issued (loadVisualizationData getTime (Some sg) result vst) \<noteq> []"
    by (simp add: loadVisualizationData_issued)
  show "issued (loadVisualizationData getTime (Some sg) result'
         (final (loadVisualizationData getTime (Some sg) result vst)))
       = issued (loadVisualizationData getTime (Some sg) result vst)"
    by (simp add: loadVisualizationData_issued loadVisualizationData_settings)
  show "issued (refreshGraphs resp gst) = [ListGraphs]"
    by (simp add: refreshGraphs_def Let_def)
  show "\<not> loading (final (refreshGraphs resp gst))"
    by (simp add: refreshGraphs_def Let_def)
  show "issued (refreshGraphs resp' (final (refreshGraphs resp gst))) = [ListGraphs]"
    by (simp add: refreshGraphs_def Let_def)
qed

lemma trim_hello: "trim ''hello'' = ''hello''"
  by (simp add: trim_def is_ws_def)

lemma demo_loading_runs:
  "trim (input (demo_chat ''hello'' False)) \<noteq> []
   \<and> \<not> isLoading (demo_chat ''hello'' False)
   \<and> isLoading (send_begin (demo_chat_env (Rejected (ErrorInstance ''down'')))
        (demo_chat ''hello'' False))
   \<and> issued (handleSendMessage (Some (demo_graph ''g1'' ''one''))
       (demo_chat_env (Rejected (ErrorInstance ''down''))) (demo_chat ''hello'' False))
     = [SendChatMessage ''hello'' ''g1'' ''session_g1_1'' True 500]
   \<and> \<not> isLoading (final (handleSendMessage (Some (demo_graph ''g1'' ''one''))
       (demo_chat_env (Rejected (ErrorInstance ''down''))) (demo_chat ''hello'' False)))
   \<and> error_chat (final (handleSendMessage (Some (demo_graph ''g1'' ''one''))
       (demo_chat_env (Rejected (ErrorInstance ''down''))) (demo_chat ''hello'' False))) = Some ''down''
   \<and> issued (loadVisualizationData demo_getTime (Some (demo_graph ''g1'' ''one''))
       (Rejected (OtherValue None)) ((demo_viz GraphView Force 0 False None)\<lparr>loading_viz := True\<rparr>))
       \<noteq> []
   \<and> \<not> loading_viz (final (loadVisualizationData demo_getTime (Some (demo_graph ''g1'' ''one''))
       (Rejected (OtherValue None)) ((demo_viz GraphView Force 0 False None)\<lparr>loading_viz := True\<rparr>)))
   \<and> loading (demo_context [] None\<lparr>loading := True\<rparr>)
   \<and> \<not> loading (final (refreshGraphs (Rejected (OtherValue None))
       (demo_context [] None\<lparr>loading := True\<rparr>)))"
  by (simp add: handleSendMessage_def send_begin_def send_settle_def loadVisualizationData_def
      refreshGraphs_def Let_def demo_chat_def demo_chat_env_def demo_graph_def demo_viz_def
      demo_context_def trim_hello)

theorem loading_flag_reset_witness:
  "trim (input (demo_chat ''hello'' False)) \<noteq> []
   \<and> \<not> isLoading (demo_chat ''hello'' False)
   \<and> isLoading (send_begin (demo_chat_env (Rejected (ErrorInstance ''down'')))
        (demo_chat ''hello'' False))
   \<and> issued (handleSendMessage (Some (demo_graph ''g1'' ''one''))
       (demo_chat_env (Rejected (ErrorInstance ''down''))) (demo_chat ''hello'' False))
     = [SendChatMessage ''hello'' ''g1'' ''session_g1_1'' True 500]
   \<and> \<not> isLoading (final (handleSendMessage (Some (demo_graph ''g1'' ''one''))
       (demo_chat_env (Rejected (ErrorInstance ''down''))) (demo_chat ''hello'' False)))
   \<and> error_chat (final (handleSendMessage (Some (demo_graph ''g1'' ''one''))
       (demo_chat_env (Rejected (ErrorInstance ''down''))) (demo_chat ''hello'' False))) = Some ''down''
   \<and> issued (loadVisualizationData demo_getTime (Some (demo_graph ''g1'' ''one''))
       (Rejected (OtherValue None)) ((demo_viz GraphView Force 0 False None)\<lparr>loading_viz := True\<rparr>))
       \<noteq> []
   \<and> \<not> loading_viz (final (loadVisualizationData demo_getTime (Some (demo_graph ''g1'' ''one''))
       (Rejected (OtherValue None)) ((demo_viz GraphView Force 0 False None)\<lparr>loading_viz := True\<rparr>)))
   \<and> loading (demo_context [] None\<lparr>loading := True\<rparr>)
   \<and> \<not> loading (final (refreshGraphs (Rejected (OtherValue None))
       (demo_context [] None\<lparr>loading := True\<rparr>)))"
  using loading_flag_reset [where selGraph = "Some (demo_graph ''g1'' ''one'')"
      and sg = "demo_graph ''g1'' ''one''"
      and env = "demo_chat_env (Rejected (ErrorInstance ''down''))"
      and cst = "demo_chat ''hello'' False"
      and getTime = demo_getTime
      and result = "Rejected (OtherValue None)"
      and vst = "(demo_viz GraphView Force 0 False None)\<lparr>loading_viz := True\<rparr>"
      and resp = "Rejected (OtherValue None)"
      and gst = "demo_context [] None\<lparr>loading := True\<rparr>"]
    demo_loading_runs
  by blast


section \<open>The upload loop\<close>

lemma uploading_begin: "uploadingFiles (upload_begin fl io s) = insert (fileId fl io) (uploadingFiles s)"
  by (simp add: upload_begin_def)

lemma uploading_settle: "uploadingFiles (upload_settle fl io s) = uploadingFiles s"
  by (simp add: upload_settle_def Let_def split: settled.splits option.splits)

lemma uploading_finally: "uploadingFiles (upload_finally fl io s) = uploadingFiles s - {fileId fl io}"
  by (simp add: upload_finally_def)

lemma uploading_file:
  "uploadingFiles (fst (upload_file sg acc fio)) = uploadingFiles (fst acc) - {fileId (fst fio) (snd fio)}"
  by (simp add: upload_file_def uploading_begin uploading_settle uploading_finally)

lemma uploading_loop:
  "uploadingFiles (fst (foldl (upload_file sg) acc fios))
     = uploadingFiles (fst acc) - (\<lambda>fio. fileId (fst fio) (snd fio)) ` set fios"
  by (induction fios arbitrary: acc) (auto simp: uploading_file)

lemma issued_loop:
  "snd (foldl (upload_file sg) acc fios)
     = snd acc @ map (\<lambda>fio. UploadDocument (fst fio) (graph_id sg) True True) fios"
  by (induction fios arbitrary: acc) (simp_all add: upload_file_def)

lemma error_settle_rejected:
  "upload_result io = Rejected e \<Longrightarrow> error_doc (upload_settle fl io s) = Some (upload_failure fl e)"
  by (simp add: upload_settle_def)

lemma error_settle_fulfilled:
  "upload_result io = Fulfilled r \<Longrightarrow>
     error_doc (upload_settle fl io s)
       = (case onDocumentUploaded_throws io of None \<Rightarrow> error_doc s | Some e \<Rightarrow> Some (upload_failure fl e))"
  by (simp add: upload_settle_def Let_def split: option.splits)

lemma error_file:
  "error_doc (fst (upload_file sg acc fio)) = error_doc (upload_settle (fst fio) (snd fio) (upload_begin (fst fio) (snd fio) (fst acc)))"
  by (simp add: upload_file_def upload_finally_def)

lemma error_begin: "error_doc (upload_begin fl io s) = error_doc s"
  by (simp add: upload_begin_def)

lemma error_loop_some:
  "\<exists>fio\<in>set fios. \<exists>e. upload_result (snd fio) = Rejected e \<Longrightarrow>
     \<exists>fio\<in>set fios. \<exists>e. error_doc (fst (foldl (upload_file sg) acc fios)) = Some (upload_failure (fst fio) e)"
proof (induction fios rule: rev_induct)
  case Nil
  then show ?case by simp
next
  case (snoc x xs)
  show ?case
  proof (cases "upload_result (snd x)")
    case (Rejected e)
    then have "error_doc (fst (foldl (upload_file sg) acc (xs @ [x]))) = Some (upload_failure (fst x) e)"
      by (simp add: error_file error_settle_rejected)
    then show ?thesis by auto
  next
    case (Fulfilled r)
    show ?thesis
    proof (cases "onDocumentUploaded_throws (snd x)")
      case (Some e)
      with Fulfilled have "error_doc (fst (foldl (upload_file sg) acc (xs @ [x]))) = Some (upload_failure (fst x) e)"
        by (simp add: error_file error_settle_fulfilled)
      then show ?thesis by auto
    next
      case None
      with Fulfilled have same: "error_doc (fst (foldl (upload_file sg) acc (xs @ [x]))) = error_doc (fst (foldl (upload_file sg) acc xs))"
        by (simp add: error_file error_settle_fulfilled error_begin)
      from snoc.prems Fulfilled have "\<exists>fio\<in>set xs. \<exists>e. upload_result (snd fio) = Rejected e"
        by auto
      from snoc.IH [OF this] same show ?thesis by auto
    qed
  qed
qed

lemma batch_nth: "k < length files \<Longrightarrow> batch ios files ! k = (files ! k, ios k)"
  by (simp add: batch_def)

lemma length_batch: "length (batch ios files) = length files"
  by (simp add: batch_def)

lemma map_fst_batch: "map fst (batch ios files) = files"
  by (simp add: batch_def)

lemma handleUpload_final:
  "final (handleUpload (Some sg) ios st) =
     (fst (foldl (upload_file sg) (st\<lparr>uploadDialog := False\<rparr>, []) (batch ios (selectedFiles st))))
       \<lparr>selectedFiles := [], metadata := []\<rparr>"
  by (simp add: handleUpload_def Let_def)

lemma handleUpload_issued:
  "issued (handleUpload (Some sg) ios st) = map (\<lambda>f. UploadDocument f (graph_id sg) True True) (selectedFiles st)"
proof -
  have "issued (handleUpload (Some sg) ios st)
      = map (\<lambda>fio. UploadDocument (fst fio) (graph_id sg) True True) (batch ios (selectedFiles st))"
    by (simp add: handleUpload_def Let_def issued_loop)
  also have "\<dots> = map (\<lambda>f. UploadDocument f (graph_id sg) True True) (map fst (batch ios (selectedFiles st)))"
    by (simp add: comp_def)
  finally show ?thesis by (simp add: map_fst_batch)
qed

lemma handleUpload_error_some:
  assumes "k < length (selectedFiles st)" "upload_result (ios k) = Rejected e"
  shows "\<exists>j<length (selectedFiles st). \<exists>e'. error_doc (final (handleUpload (Some sg) ios st))
            = Some (upload_failure (selectedFiles st ! j) e')"
proof -
  let ?b = "batch ios (selectedFiles st)"
  have "?b ! k \<in> set ?b" using assms(1) by (simp add: length_batch)
  then have "\<exists>fio\<in>set ?b. \<exists>e. upload_result (snd fio) = Rejected e"
    using assms by (auto simp: batch_nth intro!: bexI [where x = "?b ! k"])
  from error_loop_some [OF this, of sg "(st\<lparr>uploadDialog := False\<rparr>, [])"]
  obtain fio e' where fio: "fio \<in> set ?b"
    and err: "error_doc (fst (foldl (upload_file sg) (st\<lparr>uploadDialog := False\<rparr>, []) ?b)) = Some (upload_failure (fst fio) e')"
    by blast
  from fio obtain j where j: "j < length ?b" "?b ! j = fio"
    by (auto simp: in_set_conv_nth)
  then have "fst fio = selectedFiles st ! j" "j < length (selectedFiles st)"
    by (auto simp: length_batch batch_nth)
  with err show ?thesis
    by (auto simp: handleUpload_final)
qed



section \<open>Failed network calls\<close>

lemma truthy_message_nonempty: "truthy_message_or e ''Unknown error'' \<noteq> []"
  by (simp add: truthy_message_or_def split: option.splits)

lemma upload_failure_given:
  "m \<noteq> [] \<Longrightarrow> e = ErrorInstance m \<or> e = OtherValue (Some m) \<Longrightarrow>
     upload_failure fl e = ''Failed to upload '' @ file_name fl @ '': '' @ m"
  by (auto simp: upload_failure_def truthy_message_or_def)

lemma upload_failure_unknown:
  "e = ErrorInstance [] \<or> e = OtherValue (Some []) \<or> e = OtherValue None \<Longrightarrow>
     upload_failure fl e = ''Failed to upload '' @ file_name fl @ '': Unknown error''"
  by (auto simp: upload_failure_def truthy_message_or_def)

lemma upload_failure_shape:
  "\<exists>m. m \<noteq> [] \<and> upload_failure fl e = ''Failed to upload '' @ file_name fl @ '': '' @ m"
  unfolding upload_failure_def using truthy_message_nonempty by blast

lemma alert_banner_Some: "m \<noteq> [] \<Longrightarrow> alert_banner (Some m) = Some m"
  by (simp add: alert_banner_def)

text \<open>
  C1, as stated: every operation that issues a network call catches a failure of the
  call rather than propagating it, and stores a message that the alert banner shows.
  \<open>deleteGraph\<close> and \<open>createGraph\<close> issue a network call and throw its error
  again; and \<open>loadVisualizationData\<close> stores the message of the thrown \<open>Error\<close>
  as it is, so that for an empty message the banner, which tests the stored string for
  truthiness, shows nothing.
\<close>

theorem rethrown_and_unshown_failures:
  "completion (deleteGraph ''g1'' (Rejected (ErrorInstance ''down''))
       (demo_context [demo_graph ''g1'' ''one''] None)
       (demo_context [demo_graph ''g1'' ''one''] None))
     = Threw (ErrorInstance ''down'')
   \<and> completion (createGraph ''new'' None (Rejected (ErrorInstance ''down''))
       (demo_context [] None))
     = Threw (ErrorInstance ''down'')
   \<and> alert_banner (error_viz (final (loadVisualizationData demo_getTime
       (Some (demo_graph ''g1'' ''one'')) (Rejected (ErrorInstance []))
       (demo_viz GraphView Force 0 False None))))
     = None"
  by (simp add: deleteGraph_def createGraph_def loadVisualizationData_def alert_banner_def
      Let_def)

text \<open>
  C1, amended: when the call is rejected, \<open>refreshGraphs\<close>,
  \<open>loadVisualizationData\<close> and \<open>handleUpload\<close> catch the error and return, and
  issue the call once (once per selected file, whatever the outcomes). \<open>refreshGraphs\<close>
  stores \<open>Failed to load graphs\<close>; \<open>loadVisualizationData\<close> stores the message of
  a thrown \<open>Error\<close> and \<open>Failed to load visualization data\<close> for any other thrown
  value; the upload loop stores \<open>Failed to upload <name>: <message>\<close> with the thrown
  value's message, or \<open>Unknown error\<close> when that is absent or empty, and after a batch
  with a rejected upload the error state holds such a message for a file of the batch.
  The alert banner shows each of these stored messages that is not empty.
  \<open>deleteGraph\<close> and \<open>createGraph\<close> also issue their call once and store
  \<open>Failed to delete graph\<close> and \<open>Failed to create graph\<close>, but throw the error
  again to their caller.
\<close>

theorem failed_calls_handled:
  "completion (refreshGraphs (Rejected e) gst) = Returned
   \<and> error (final (refreshGraphs (Rejected e) gst)) = Some ''Failed to load graphs''
   \<and> alert_banner (error (final (refreshGraphs (Rejected e) gst))) = Some ''Failed to load graphs''
   \<and> issued (refreshGraphs (Rejected e) gst) = [ListGraphs]
   \<and> completion (loadVisualizationData getTime (Some sg) (Rejected e) vst) = Returned
   \<and> length (issued (loadVisualizationData getTime (Some sg) (Rejected e) vst)) = 1
   \<and> error_viz (final (loadVisualizationData getTime (Some sg) (Rejected (ErrorInstance m)) vst))
       = Some m
   \<and> (m \<noteq> [] \<longrightarrow>
        alert_banner (error_viz (final (loadVisualizationData getTime (Some sg)
           (Rejected (ErrorInstance m)) vst))) = Some m)
   \<and> alert_banner (error_viz (final (loadVisualizationData getTime (Some sg)
           (Rejected (OtherValue v)) vst))) = Some ''Failed to load visualization data''
   \<and> completion (handleUpload (Some sg) ios dst) = Returned
   \<and> issued (handleUpload (Some sg) ios dst)
       = map (\<lambda>f. UploadDocument f (graph_id sg) True True) (selectedFiles dst)
   \<and> (upload_result io = Rejected e \<and> m \<noteq> [] \<and> (e = ErrorInstance m \<or> e = OtherValue (Some m)) \<longrightarrow>
        alert_banner (error_doc (fst (upload_file sg acc (fl, io))))
          = Some (''Failed to upload '' @ file_name fl @ '': '' @ m))
   \<and> (upload_result io = Rejected e
        \<and> (e = ErrorInstance [] \<or> e = OtherValue (Some []) \<or> e = OtherValue None) \<longrightarrow>
        alert_banner (error_doc (fst (upload_file sg acc (fl, io))))
          = Some (''Failed to upload '' @ file_name fl @ '': Unknown error''))
   \<and> (k < length (selectedFiles dst) \<and> upload_result (ios k) = Rejected e \<longrightarrow>
        (\<exists>j<length (selectedFiles dst). \<exists>m'. m' \<noteq> [] \<and>
            alert_banner (error_doc (final (handleUpload (Some sg) ios dst)))
              = Some (''Failed to upload '' @ file_name (selectedFiles dst ! j) @ '': '' @ m')))
   \<and> completion (deleteGraph g (Rejected e) captured live) = Threw e
   \<and> error (final (deleteGraph g (Rejected e) captured live)) = Some ''Failed to delete graph''
   \<and> issued (deleteGraph g (Rejected e) captured live) = [DeleteGraph g]
   \<and> completion (createGraph nm descr (Rejected e) live) = Threw e
   \<and> error (final (createGraph nm descr (Rejected e) live)) = Some ''Failed to create graph''
   \<and> issued (createGraph nm descr (Rejected e) live) = [CreateGraph nm descr]"
proof (intro conjI impI)
  show "completion (refreshGraphs (Rejected e) gst) = Returned"
    by (simp add: refreshGraphs_def Let_def)
  show "error (final (refreshGraphs (Rejected e) gst)) = Some ''Failed to load graphs''"
    by (simp add: refreshGraphs_def Let_def)
  show "alert_banner (error (final (refreshGraphs (Rejected e) gst))) = Some ''Failed to load graphs''"
    by (simp add: refreshGraphs_def Let_def alert_banner_def)
  show "issued (refreshGraphs (Rejected e) gst) = [ListGraphs]"
    by (simp add: refreshGraphs_def Let_def)
  show "completion (loadVisualizationData getTime (Some sg) (Rejected e) vst) = Returned"
    by (simp add: loadVisualizationData_def Let_def)
  show "length (issued (loadVisualizationData getTime (Some sg) (Rejected e) vst)) = 1"
    by (simp add: loadVisualizationData_def Let_def)
  show "error_viz (final (loadVisualizationData getTime (Some sg) (Rejected (ErrorInstance m)) vst))
       = Some m"
    by (simp add: loadVisualizationData_def Let_def)
  show "alert_banner (error_viz (final (loadVisualizationData getTime (Some sg)
           (Rejected (ErrorInstance m)) vst))) = Some m" if "m \<noteq> []"
    using that by (simp add: loadVisualizationData_def Let_def alert_banner_def)
  show "alert_banner (error_viz (final (loadVisualizationData getTime (Some sg)
           (Rejected (OtherValue v)) vst))) = Some ''Failed to load visualization data''"
    by (simp add: loadVisualizationData_def Let_def alert_banner_def)
  show "completion (handleUpload (Some sg) ios dst) = Returned"
    by (simp add: handleUpload_def Let_def)
  show "issued (handleUpload (Some sg) ios dst)
       = map (\<lambda>f. UploadDocument f (graph_id sg) True True) (selectedFiles dst)"
    by (rule handleUpload_issued)
  show "alert_banner (error_doc (fst (upload_file sg acc (fl, io))))
          = Some (''Failed to upload '' @ file_name fl @ '': '' @ m)"
    if h: "upload_result io = Rejected e \<and> m \<noteq> [] \<and> (e = ErrorInstance m \<or> e = OtherValue (Some m))"
  proof -
    have "error_doc (fst (upload_file sg acc (fl, io))) = Some (upload_failure fl e)"
      using h by (simp add: error_file error_settle_rejected)
    also have "upload_failure fl e = ''Failed to upload '' @ file_name fl @ '': '' @ m"
      using h by (intro upload_failure_given) simp_all
    finally show ?thesis by (simp add: alert_banner_def)
  qed
  show "alert_banner (error_doc (fst (upload_file sg acc (fl, io))))
          = Some (''Failed to upload '' @ file_name fl @ '': Unknown error'')"
    if h: "upload_result io = Rejected e
        \<and> (e = ErrorInstance [] \<or> e = OtherValue (Some []) \<or> e = OtherValue None)"
  proof -
    have "error_doc (fst (upload_file sg acc (fl, io))) = Some (upload_failure fl e)"
      using h by (simp add: error_file error_settle_rejected)
    also have "upload_failure fl e = ''Failed to upload '' @ file_name fl @ '': Unknown error''"
      using h by (intro upload_failure_unknown) simp
    finally show ?thesis by (simp add: alert_banner_def)
  qed
  show "\<exists>j<length (selectedFiles dst). \<exists>m'. m' \<noteq> [] \<and>
            alert_banner (error_doc (final (handleUpload (Some sg) ios dst)))
              = Some (''Failed to upload '' @ file_name (selectedFiles dst ! j) @ '': '' @ m')"
    if h: "k < length (selectedFiles dst) \<and> upload_result (ios k) = Rejected e"
  proof -
    from h handleUpload_error_some [of k dst ios e sg]
    obtain j e' where j: "j < length (selectedFiles dst)"
      and st: "error_doc (final (handleUpload (Some sg) ios dst))
                 = Some (upload_failure (selectedFiles dst ! j) e')"
      by blast
    from upload_failure_shape [of "selectedFiles dst ! j" e']
    obtain m' where m': "m' \<noteq> []"
      "upload_failure (selectedFiles dst ! j) e'
         = ''Failed to upload '' @ file_name (selectedFiles dst ! j) @ '': '' @ m'"
      by blast
    have "alert_banner (error_doc (final (handleUpload (Some sg) ios dst)))
        = Some (''Failed to upload '' @ file_name (selectedFiles dst ! j) @ '': '' @ m')"
      by (simp add: st m'(2) alert_banner_def)
    with j m'(1) show ?thesis by blast
  qed
  show "completion (deleteGraph g (Rejected e) captured live) = Threw e"
    by (simp add: deleteGraph_def)
  show "error (final (deleteGraph g (Rejected e) captured live)) = Some ''Failed to delete graph''"
    by (simp add: deleteGraph_def)
  show "issued (deleteGraph g (Rejected e) captured live) = [DeleteGraph g]"
    by (simp add: deleteGraph_def)
  show "completion (createGraph nm descr (Rejected e) live) = Threw e"
    by (simp add: createGraph_def)
  show "error (final (createGraph nm descr (Rejected e) live)) = Some ''Failed to create graph''"
    by (simp add: createGraph_def)
  show "issued (createGraph nm descr (Rejected e) live) = [CreateGraph nm descr]"
    by (simp add: createGraph_def)
qed

lemma demo_upload_run:
  "handleUpload (Some (demo_graph ''g1'' ''one'')) demo_io
     (demo_loader [demo_file ''a.txt'', demo_file ''b.txt''] {''c.txt-1''})
   = \<lparr>final = \<lparr>documents =
         [\<lparr>document_id = ''d1'', filename = ''b.txt'', file_path = ''/tmp/b.txt'',
           content_type = ''text/plain'', size_doc = 4, status = ''uploaded'',
           uploaded_at = ''2025-06-01T00:00:00Z'', id_doc = ''d1''\<rparr>],
        uploadingFiles = {''c.txt-1''},
        error_doc = Some ''Failed to upload a.txt: timeout'',
        success = Some ''Successfully uploaded b.txt'',
        uploadDialog = False, selectedFiles = [], metadata = []\<rparr>,
      completion = Returned,
      issued = [UploadDocument (demo_file ''a.txt'') ''g1'' True True,
                UploadDocument (demo_file ''b.txt'') ''g1'' True True]\<rparr>"
  by code_simp

lemma demo_failed_batch:
  "alert_banner (error_doc (final (handleUpload (Some (demo_graph ''g1'' ''one'')) demo_io
         (demo_loader [demo_file ''a.txt'', demo_file ''b.txt''] {''c.txt-1''}))))
       = Some ''Failed to upload a.txt: timeout''
   \<and> issued (handleUpload (Some (demo_graph ''g1'' ''one'')) demo_io
         (demo_loader [demo_file ''a.txt'', demo_file ''b.txt''] {''c.txt-1''}))
       = [UploadDocument (demo_file ''a.txt'') ''g1'' True True,
          UploadDocument (demo_file ''b.txt'') ''g1'' True True]"
  by (simp add: demo_upload_run alert_banner_def)

lemma demo_failed_calls:
  "''timeout'' \<noteq> []
   \<and> (0::nat) < length (selectedFiles (demo_loader [demo_file ''a.txt'', demo_file ''b.txt''] {''c.txt-1''}))
   \<and> upload_result (demo_io 0) = Rejected (ErrorInstance ''timeout'')
   \<and> upload_result ((demo_io 0)\<lparr>upload_result := Rejected (OtherValue None)\<rparr>)
       = Rejected (OtherValue None)
   \<and> alert_banner (error_doc (fst (upload_file (demo_graph ''g1'' ''one'')
         (demo_loader [demo_file ''a.txt'', demo_file ''b.txt''] {''c.txt-1''}, [])
         (demo_file ''a.txt'', demo_io 0))))
       = Some ''Failed to upload a.txt: timeout''
   \<and> alert_banner (error_doc (fst (upload_file (demo_graph ''g1'' ''one'')
         (demo_loader [demo_file ''a.txt'', demo_file ''b.txt''] {''c.txt-1''}, [])
         (demo_file ''a.txt'', (demo_io 0)\<lparr>upload_result := Rejected (OtherValue None)\<rparr>))))
       = Some ''Failed to upload a.txt: Unknown error''
   \<and> alert_banner (error (final (refreshGraphs (Rejected (ErrorInstance ''timeout''))
         (demo_context [] None))))
       = Some ''Failed to load graphs''
   \<and> alert_banner (error_viz (final (loadVisualizationData demo_getTime
         (Some (demo_graph ''g1'' ''one'')) (Rejected (ErrorInstance ''timeout''))
         (demo_viz GraphView Force 0 False None))))
       = Some ''timeout''"
  by (simp add: demo_io_def demo_loader_def demo_file_def
      upload_file_def upload_begin_def upload_settle_def upload_finally_def upload_failure_def
      truthy_message_or_def alert_banner_def refreshGraphs_def loadVisualizationData_def Let_def)

theorem failed_calls_handled_witness:
  "''timeout'' \<noteq> []
   \<and> (0::nat) < length (selectedFiles (demo_loader [demo_file ''a.txt'', demo_file ''b.txt''] {''c.txt-1''}))
   \<and> upload_result (demo_io 0) = Rejected (ErrorInstance ''timeout'')
   \<and> upload_result ((demo_io 0)\<lparr>upload_result := Rejected (OtherValue None)\<rparr>)
       = Rejected (OtherValue None)
   \<and> alert_banner (error_doc (fst (upload_file (demo_graph ''g1'' ''one'')
         (demo_loader [demo_file ''a.txt'', demo_file ''b.txt''] {''c.txt-1''}, [])
         (demo_file ''a.txt'', demo_io 0))))
       = Some ''Failed to upload a.txt: timeout''
   \<and> alert_banner (error_doc (fst (upload_file (demo_graph ''g1'' ''one'')
         (demo_loader [demo_file ''a.txt'', demo_file ''b.txt''] {''c.txt-1''}, [])
         (demo_file ''a.txt'', (demo_io 0)\<lparr>upload_result := Rejected (OtherValue None)\<rparr>))))
       = Some ''Failed to upload a.txt: Unknown error''
   \<and> alert_banner (error (final (refreshGraphs (Rejected (ErrorInstance ''timeout''))
         (demo_context [] None))))
       = Some ''Failed to load graphs''
   \<and> alert_banner (error_viz (final (loadVisualizationData demo_getTime
         (Some (demo_graph ''g1'' ''one'')) (Rejected (ErrorInstance ''timeout''))
         (demo_viz GraphView Force 0 False None))))
       = Some ''timeout''
   \<and> alert_banner (error_doc (final (handleUpload (Some (demo_graph ''g1'' ''one'')) demo_io
         (demo_loader [demo_file ''a.txt'', demo_file ''b.txt''] {''c.txt-1''}))))
       = Some ''Failed to upload a.txt: timeout''
   \<and> issued (handleUpload (Some (demo_graph ''g1'' ''one'')) demo_io
         (demo_loader [demo_file ''a.txt'', demo_file ''b.txt''] {''c.txt-1''}))
       = [UploadDocument (demo_file ''a.txt'') ''g1'' True True,
          UploadDocument (demo_file ''b.txt'') ''g1'' True True]"
  using failed_calls_handled [where e = "ErrorInstance ''timeout''" and m = "''timeout''"
      and gst = "demo_context [] None" and getTime = demo_getTime
      and sg = "demo_graph ''g1'' ''one''" and vst = "demo_viz GraphView Force 0 False None"
      and ios = demo_io and k = 0 and io = "demo_io 0" and fl = "demo_file ''a.txt''"
      and acc = "(demo_loader [demo_file ''a.txt'', demo_file ''b.txt''] {''c.txt-1''}, [])"
      and dst = "demo_loader [demo_file ''a.txt'', demo_file ''b.txt''] {''c.txt-1''}"]
    failed_calls_handled [where e = "OtherValue None"
      and sg = "demo_graph ''g1'' ''one''"
      and io = "(demo_io 0)\<lparr>upload_result := Rejected (OtherValue None)\<rparr>"
      and fl = "demo_file ''a.txt''"
      and acc = "(demo_loader [demo_file ''a.txt'', demo_file ''b.txt''] {''c.txt-1''}, [])"]
    demo_failed_calls demo_failed_batch
  by blast


section \<open>Bookkeeping of uploads\<close>

lemma digit_of_char: "d < 10 \<Longrightarrow> of_char (char_of (48 + d :: nat)) = (48 + d :: nat)"
  by (simp add: of_char_of)

lemma digit_inj:
  assumes "a < 10" "b < 10" "char_of (48 + a :: nat) = char_of (48 + b :: nat)"
  shows "a = b"
proof -
  have "(of_char (char_of (48 + a)) :: nat) = of_char (char_of (48 + b))"
    using assms(3) by simp
  then show ?thesis
    using assms(1,2) by (simp add: digit_of_char)
qed

lemma digit_not_dash: "d < 10 \<Longrightarrow> char_of (48 + d :: nat) \<noteq> CHR ''-''"
proof
  assume d: "d < 10" and eq: "char_of (48 + d) = CHR ''-''"
  have "(of_char (char_of (48 + d)) :: nat) = of_char CHR ''-''"
    using eq by simp
  then show False
    using d by (simp add: digit_of_char)
qed

lemma show_nat_nonempty: "show_nat n \<noteq> []"
  by (subst show_nat.simps) simp

lemma show_nat_no_dash: "CHR ''-'' \<notin> set (show_nat n)"
proof (induction n rule: show_nat.induct)
  case (1 n)
  show ?case
  proof (cases "n < 10")
    case True
    then show ?thesis
      using digit_not_dash [of n] by (subst show_nat.simps) auto
  next
    case False
    have "n mod 10 < 10" by simp
    then have "char_of (48 + n mod 10) \<noteq> CHR ''-''"
      by (rule digit_not_dash)
    with False "1.IH" show ?thesis
      by (subst show_nat.simps) auto
  qed
qed

lemma show_nat_inj: "show_nat a = show_nat b \<Longrightarrow> a = b"
proof (induction a arbitrary: b rule: show_nat.induct)
  case (1 n)
  show ?case
  proof (cases "n < 10")
    case small: True
    show ?thesis
    proof (cases "b < 10")
      case True
      with small "1.prems" have "char_of (48 + n) = char_of (48 + b)"
        by (simp add: show_nat.simps [of n] show_nat.simps [of b])
      with small True show ?thesis by (rule digit_inj)
    next
      case False
      with small "1.prems" have "[char_of (48 + n)] = show_nat (b div 10) @ [char_of (48 + b mod 10)]"
        by (simp add: show_nat.simps [of n] show_nat.simps [of b])
      then have "show_nat (b div 10) = []" by simp
      then show ?thesis by (simp add: show_nat_nonempty)
    qed
  next
    case big: False
    show ?thesis
    proof (cases "b < 10")
      case True
      with big "1.prems" have "show_nat (n div 10) @ [char_of (48 + n mod 10)] = [char_of (48 + b)]"
        by (simp add: show_nat.simps [of n] show_nat.simps [of b])
      then have "show_nat (n div 10) = []" by simp
      then show ?thesis by (simp add: show_nat_nonempty)
    next
      case False
      with big "1.prems" have eq: "show_nat (n div 10) = show_nat (b div 10)"
        "char_of (48 + n mod 10) = char_of (48 + b mod 10)"
        by (simp_all add: show_nat.simps [of n] show_nat.simps [of b])
      from "1.IH" [OF big eq(1)] have q: "n div 10 = b div 10" .
      have "n mod 10 < 10" "b mod 10 < 10" by simp_all
      from digit_inj [OF this eq(2)] have r: "n mod 10 = b mod 10" .
      from q r show ?thesis
        by (metis div_mult_mod_eq)
    qed
  qed
qed

lemma takeWhile_until:
  "\<forall>c\<in>set xs. P c \<Longrightarrow> \<not> P y \<Longrightarrow> takeWhile P (xs @ y # ys) = xs"
  by (induction xs) auto

lemma identifier_inj:
  assumes "n1 @ ''-'' @ show_nat a = n2 @ ''-'' @ show_nat b"
  shows "n1 = n2 \<and> a = b"
proof -
  let ?P = "\<lambda>c. c \<noteq> CHR ''-''"
  have tw: "takeWhile ?P (rev (nm @ ''-'' @ show_nat k)) = rev (show_nat k)" for nm k
  proof -
    have "rev (nm @ ''-'' @ show_nat k) = rev (show_nat k) @ CHR ''-'' # rev nm"
      by simp
    moreover have "\<forall>c\<in>set (rev (show_nat k)). ?P c"
      using show_nat_no_dash [of k] by auto
    ultimately show ?thesis
      by (simp only: takeWhile_until [of "rev (show_nat k)" ?P "CHR ''-''" "rev nm"] simp_thms)
  qed
  have "rev (show_nat a) = rev (show_nat b)"
    using arg_cong [OF assms, of "\<lambda>xs. takeWhile ?P (rev xs)"] by (simp only: tw)
  then have digits: "show_nat a = show_nat b" by simp
  then have "a = b" by (rule show_nat_inj)
  moreover from assms digits have "n1 = n2" by simp
  ultimately show ?thesis by simp
qed

lemma error_loop_success:
  "\<forall>fio\<in>set fios. (\<exists>r. upload_result (snd fio) = Fulfilled r) \<and> onDocumentUploaded_throws (snd fio) = None \<Longrightarrow>
     error_doc (fst (foldl (upload_file sg) acc fios)) = error_doc (fst acc)"
proof (induction fios arbitrary: acc)
  case Nil
  then show ?case by simp
next
  case (Cons x xs)
  from Cons.prems obtain r where "upload_result (snd x) = Fulfilled r"
    "onDocumentUploaded_throws (snd x) = None"
    by auto
  then have "error_doc (fst (upload_file sg acc x)) = error_doc (fst acc)"
    by (simp add: error_file error_settle_fulfilled error_begin)
  with Cons show ?case by simp
qed

lemma handleUpload_last_failure:
  assumes k: "k < length (selectedFiles st)"
    and rej: "upload_result (ios k) = Rejected e"
    and later: "\<forall>j. k < j \<and> j < length (selectedFiles st) \<longrightarrow>
        (\<exists>r. upload_result (ios j) = Fulfilled r) \<and> onDocumentUploaded_throws (ios j) = None"
  shows "error_doc (final (handleUpload (Some sg) ios st))
           = Some (upload_failure (selectedFiles st ! k) e)"
proof -
  let ?b = "batch ios (selectedFiles st)"
  let ?s0 = "(st\<lparr>uploadDialog := False\<rparr>, [] :: api_call list)"
  have kb: "k < length ?b" using k by (simp add: length_batch)
  have split: "?b = take k ?b @ ?b ! k # drop (Suc k) ?b"
    using kb by (rule id_take_nth_drop)
  have rest: "\<forall>fio\<in>set (drop (Suc k) ?b).
      (\<exists>r. upload_result (snd fio) = Fulfilled r) \<and> onDocumentUploaded_throws (snd fio) = None"
  proof
    fix fio assume "fio \<in> set (drop (Suc k) ?b)"
    then obtain i where i: "i < length (drop (Suc k) ?b)" "drop (Suc k) ?b ! i = fio"
      by (auto simp: in_set_conv_nth)
    then have j: "Suc k + i < length (selectedFiles st)"
      by (simp add: length_batch)
    then have "fio = (selectedFiles st ! (Suc k + i), ios (Suc k + i))"
      using i by (simp add: batch_nth length_batch)
    with later j show "(\<exists>r. upload_result (snd fio) = Fulfilled r) \<and> onDocumentUploaded_throws (snd fio) = None"
      by simp
  qed
  let ?mid = "upload_file sg (foldl (upload_file sg) ?s0 (take k ?b)) (?b ! k)"
  have "foldl (upload_file sg) ?s0 ?b = foldl (upload_file sg) ?mid (drop (Suc k) ?b)"
    by (subst split) simp
  then have "error_doc (fst (foldl (upload_file sg) ?s0 ?b)) = error_doc (fst ?mid)"
    using error_loop_success [OF rest] by simp
  also have "\<dots> = Some (upload_failure (selectedFiles st ! k) e)"
    using k rej by (simp add: error_file batch_nth error_settle_rejected)
  finally show ?thesis
    by (simp add: handleUpload_final)
qed

lemma batch_ids:
  "(\<lambda>fio. fileId (fst fio) (snd fio)) ` set (batch ios files)
     = (\<lambda>k. file_name (files ! k) @ ''-'' @ show_nat (now_upload (ios k))) ` {..<length files}"
proof -
  have "set (batch ios files) = (\<lambda>k. (files ! k, ios k)) ` {..<length files}"
  proof (intro set_eqI iffI)
    fix p assume "p \<in> set (batch ios files)"
    then obtain i where "i < length (batch ios files)" "batch ios files ! i = p"
      by (auto simp: in_set_conv_nth)
    then show "p \<in> (\<lambda>k. (files ! k, ios k)) ` {..<length files}"
      by (auto simp: length_batch batch_nth)
  next
    fix p assume "p \<in> (\<lambda>k. (files ! k, ios k)) ` {..<length files}"
    then obtain k where k: "k < length files" "p = (files ! k, ios k)"
      by auto
    then have "batch ios files ! k \<in> set (batch ios files)"
      by (simp add: length_batch)
    with k show "p \<in> set (batch ios files)"
      by (simp add: batch_nth)
  qed
  then show ?thesis
    by (simp add: image_image fileId_def)
qed


text \<open>
  C5, as stated: the component keeps error state per request, and the entry of one
  upload in \<open>uploadingFiles\<close> is not affected by another. There is one error slot:
  when both uploads of a batch fail, the message of the first is gone after the second.
  And the identifier is the file name and the clock reading: two uploads of a file of
  the same name begun in the same millisecond share it, and the end of the first removes
  the entry while the second is in flight.
\<close>

theorem upload_errors_share_one_slot:
  "upload_result (demo_io_failing 0) = Rejected (ErrorInstance ''timeout'')
   \<and> upload_result (demo_io_failing 1) = Rejected (ErrorInstance ''timeout'')
   \<and> error_doc (final (handleUpload (Some (demo_graph ''g1'' ''one'')) demo_io_failing
         (demo_loader [demo_file ''a.txt'', demo_file ''b.txt''] {})))
       = Some ''Failed to upload b.txt: timeout''
   \<and> uploadingFiles (upload_begin (demo_file ''a.txt'') (demo_io 0)
         (upload_begin (demo_file ''a.txt'') (demo_io 0) (demo_loader [] {})))
       = {''a.txt-5''}
   \<and> uploadingFiles (upload_finally (demo_file ''a.txt'') (demo_io 0)
         (upload_begin (demo_file ''a.txt'') (demo_io 0)
            (upload_begin (demo_file ''a.txt'') (demo_io 0) (demo_loader [] {}))))
       = {}"
  by code_simp

text \<open>
  C5, amended: for every file of a batch, the identifier \<open><name>-<Date.now()>\<close> is
  put into \<open>uploadingFiles\<close> before the request is issued, stays there while the
  request is settled, and is removed by the \<open>finally\<close> block whether the request
  was fulfilled or rejected; neither step touches an entry other than that identifier,
  which two uploads share exactly when their file names and clock readings are the
  same. After the batch the set is the initial one without the identifiers of the
  batch, so none of them is left, and every file of the batch has been uploaded
  whatever happened to the others. The component has a single error slot: a rejected
  upload overwrites it with \<open>Failed to upload <name>: <message>\<close> (\<open>Unknown error\<close>
  for an absent or empty message), a successful one leaves it as it was, so after the
  batch it holds the message of the last rejected upload when the uploads after it
  succeeded.
\<close>

theorem upload_bookkeeping:
  "uploadingFiles (upload_begin fl io s)
     = insert (file_name fl @ ''-'' @ show_nat (now_upload io)) (uploadingFiles s)
   \<and> uploadingFiles (upload_settle fl io s) = uploadingFiles s
   \<and> uploadingFiles (upload_finally fl io s)
     = uploadingFiles s - {file_name fl @ ''-'' @ show_nat (now_upload io)}
   \<and> uploadingFiles (fst (upload_file sg acc (fl, io)))
     = uploadingFiles (fst acc) - {file_name fl @ ''-'' @ show_nat (now_upload io)}
   \<and> ((file_name fl @ ''-'' @ show_nat (now_upload io)
          = file_name fl' @ ''-'' @ show_nat (now_upload io'))
        = (file_name fl = file_name fl' \<and> now_upload io = now_upload io'))
   \<and> uploadingFiles (final (handleUpload (Some sg) ios st))
     = uploadingFiles st
         - (\<lambda>k. file_name (selectedFiles st ! k) @ ''-'' @ show_nat (now_upload (ios k)))
             ` {..<length (selectedFiles st)}
   \<and> (\<forall>k<length (selectedFiles st).
         file_name (selectedFiles st ! k) @ ''-'' @ show_nat (now_upload (ios k))
           \<notin> uploadingFiles (final (handleUpload (Some sg) ios st)))
   \<and> issued (handleUpload (Some sg) ios st)
       = map (\<lambda>f. UploadDocument f (graph_id sg) True True) (selectedFiles st)
   \<and> (upload_result io = Rejected e \<and> m \<noteq> [] \<and> (e = ErrorInstance m \<or> e = OtherValue (Some m)) \<longrightarrow>
         error_doc (fst (upload_file sg acc (fl, io)))
           = Some (''Failed to upload '' @ file_name fl @ '': '' @ m))
   \<and> (upload_result io = Rejected e
         \<and> (e = ErrorInstance [] \<or> e = OtherValue (Some []) \<or> e = OtherValue None) \<longrightarrow>
         error_doc (fst (upload_file sg acc (fl, io)))
           = Some (''Failed to upload '' @ file_name fl @ '': Unknown error''))
   \<and> (upload_result io = Fulfilled r \<and> onDocumentUploaded_throws io = None \<longrightarrow>
         error_doc (fst (upload_file sg acc (fl, io))) = error_doc (fst acc))
   \<and> (k < length (selectedFiles st) \<and> upload_result (ios k) = Rejected e
         \<and> m \<noteq> [] \<and> (e = ErrorInstance m \<or> e = OtherValue (Some m))
         \<and> (\<forall>j. k < j \<and> j < length (selectedFiles st) \<longrightarrow>
               (\<exists>r. upload_result (ios j) = Fulfilled r) \<and> onDocumentUploaded_throws (ios j) = None) \<longrightarrow>
         error_doc (final (handleUpload (Some sg) ios st))
           = Some (''Failed to upload '' @ file_name (selectedFiles st ! k) @ '': '' @ m))"
proof (intro conjI allI impI)
  show "uploadingFiles (upload_begin fl io s)
     = insert (file_name fl @ ''-'' @ show_nat (now_upload io)) (uploadingFiles s)"
    by (simp add: uploading_begin fileId_def)
  show "uploadingFiles (upload_settle fl io s) = uploadingFiles s"
    by (rule uploading_settle)
  show "uploadingFiles (upload_finally fl io s)
     = uploadingFiles s - {file_name fl @ ''-'' @ show_nat (now_upload io)}"
    by (simp add: uploading_finally fileId_def)
  show "uploadingFiles (fst (upload_file sg acc (fl, io)))
     = uploadingFiles (fst acc) - {file_name fl @ ''-'' @ show_nat (now_upload io)}"
    by (simp add: uploading_file fileId_def)
  show "(file_name fl @ ''-'' @ show_nat (now_upload io)
          = file_name fl' @ ''-'' @ show_nat (now_upload io'))
        = (file_name fl = file_name fl' \<and> now_upload io = now_upload io')"
    using identifier_inj [of "file_name fl" "now_upload io" "file_name fl'" "now_upload io'"]
    by auto
  show all: "uploadingFiles (final (handleUpload (Some sg) ios st))
     = uploadingFiles st
         - (\<lambda>k. file_name (selectedFiles st ! k) @ ''-'' @ show_nat (now_upload (ios k)))
             ` {..<length (selectedFiles st)}"
    by (simp add: handleUpload_final uploading_loop batch_ids)
  show "file_name (selectedFiles st ! k) @ ''-'' @ show_nat (now_upload (ios k))
           \<notin> uploadingFiles (final (handleUpload (Some sg) ios st))"
    if "k < length (selectedFiles st)" for k
    using that by (simp add: all)
  show "issued (handleUpload (Some sg) ios st)
       = map (\<lambda>f. UploadDocument f (graph_id sg) True True) (selectedFiles st)"
    by (rule handleUpload_issued)
  show "error_doc (fst (upload_file sg acc (fl, io)))
           = Some (''Failed to upload '' @ file_name fl @ '': '' @ m)"
    if h: "upload_result io = Rejected e \<and> m \<noteq> [] \<and> (e = ErrorInstance m \<or> e = OtherValue (Some m))"
  proof -
    have "upload_failure fl e = ''Failed to upload '' @ file_name fl @ '': '' @ m"
      using h by (intro upload_failure_given) simp_all
    with h show ?thesis
      by (simp add: error_file error_settle_rejected)
  qed
  show "error_doc (fst (upload_file sg acc (fl, io)))
           = Some (''Failed to upload '' @ file_name fl @ '': Unknown error'')"
    if h: "upload_result io = Rejected e
         \<and> (e = ErrorInstance [] \<or> e = OtherValue (Some []) \<or> e = OtherValue None)"
  proof -
    have "upload_failure fl e = ''Failed to upload '' @ file_name fl @ '': Unknown error''"
      using h by (intro upload_failure_unknown) simp
    with h show ?thesis
      by (simp add: error_file error_settle_rejected)
  qed
  show "error_doc (fst (upload_file sg acc (fl, io))) = error_doc (fst acc)"
    if "upload_result io = Fulfilled r \<and> onDocumentUploaded_throws io = None"
    using that by (simp add: error_file error_settle_fulfilled error_begin)
  show "error_doc (final (handleUpload (Some sg) ios st))
           = Some (''Failed to upload '' @ file_name (selectedFiles st ! k) @ '': '' @ m)"
    if h: "k < length (selectedFiles st) \<and> upload_result (ios k) = Rejected e
         \<and> m \<noteq> [] \<and> (e = ErrorInstance m \<or> e = OtherValue (Some m))
         \<and> (\<forall>j. k < j \<and> j < length (selectedFiles st) \<longrightarrow>
               (\<exists>r. upload_result (ios j) = Fulfilled r) \<and> onDocumentUploaded_throws (ios j) = None)"
  proof -
    have "error_doc (final (handleUpload (Some sg) ios st))
        = Some (upload_failure (selectedFiles st ! k) e)"
      using h by (intro handleUpload_last_failure) simp_all
    moreover have "upload_failure (selectedFiles st ! k) e
        = ''Failed to upload '' @ file_name (selectedFiles st ! k) @ '': '' @ m"
      using h by (intro upload_failure_given) simp_all
    ultimately show ?thesis by simp
  qed
qed

lemma demo_later_uploads:
  "\<forall>j. 0 < j \<and> j < length (selectedFiles (demo_loader [demo_file ''a.txt'', demo_file ''b.txt''] {''c.txt-1''})) \<longrightarrow>
      (\<exists>r. upload_result (demo_io j) = Fulfilled r) \<and> onDocumentUploaded_throws (demo_io j) = None"
  by (simp add: demo_io_def)

lemma demo_bookkeeping:
  "(0::nat) < length (selectedFiles (demo_loader [demo_file ''a.txt'', demo_file ''b.txt''] {''c.txt-1''}))
   \<and> (1::nat) < length (selectedFiles (demo_loader [demo_file ''a.txt'', demo_file ''b.txt''] {''c.txt-1''}))
   \<and> ''timeout'' \<noteq> []
   \<and> upload_result (demo_io 0) = Rejected (ErrorInstance ''timeout'')
   \<and> onDocumentUploaded_throws (demo_io 1) = None
   \<and> upload_result (demo_io 1)
       = Fulfilled \<lparr>document_id = ''d1'', filename = ''b.txt'', file_path = ''/tmp/b.txt'',
                    content_type = ''text/plain'', size_doc = 4, status = ''uploaded'',
                    uploaded_at = ''2025-06-01T00:00:00Z''\<rparr>"
  by (simp add: demo_io_def demo_loader_def)

lemma demo_bookkeeping_runs:
  "uploadingFiles (upload_begin (demo_file ''a.txt'') (demo_io 0) (demo_loader [demo_file ''a.txt'', demo_file ''b.txt''] {''c.txt-1''}))
       = {''a.txt-5'', ''c.txt-1''}
   \<and> uploadingFiles (final (handleUpload (Some (demo_graph ''g1'' ''one'')) demo_io (demo_loader [demo_file ''a.txt'', demo_file ''b.txt''] {''c.txt-1''}))) = {''c.txt-1''}
   \<and> error_doc (final (handleUpload (Some (demo_graph ''g1'' ''one'')) demo_io (demo_loader [demo_file ''a.txt'', demo_file ''b.txt''] {''c.txt-1''})))
       = Some ''Failed to upload a.txt: timeout''
   \<and> error_doc (fst (upload_file (demo_graph ''g1'' ''one'')
         ((demo_loader [demo_file ''a.txt'', demo_file ''b.txt''] {''c.txt-1''})\<lparr>error_doc := Some ''Failed to upload a.txt: timeout''\<rparr>, [])
         (demo_file ''b.txt'', demo_io 1)))
       = Some ''Failed to upload a.txt: timeout''"
  by code_simp

theorem upload_bookkeeping_witness:
  "(0::nat) < length (selectedFiles (demo_loader [demo_file ''a.txt'', demo_file ''b.txt''] {''c.txt-1''}))
   \<and> (1::nat) < length (selectedFiles (demo_loader [demo_file ''a.txt'', demo_file ''b.txt''] {''c.txt-1''}))
   \<and> ''timeout'' \<noteq> []
   \<and> upload_result (demo_io 0) = Rejected (ErrorInstance ''timeout'')
   \<and> onDocumentUploaded_throws (demo_io 1) = None
   \<and> upload_result (demo_io 1)
       = Fulfilled \<lparr>document_id = ''d1'', filename = ''b.txt'', file_path = ''/tmp/b.txt'',
                    content_type = ''text/plain'', size_doc = 4, status = ''uploaded'',
                    uploaded_at = ''2025-06-01T00:00:00Z''\<rparr>
   \<and> uploadingFiles (upload_begin (demo_file ''a.txt'') (demo_io 0) (demo_loader [demo_file ''a.txt'', demo_file ''b.txt''] {''c.txt-1''}))
       = {''a.txt-5'', ''c.txt-1''}
   \<and> uploadingFiles (final (handleUpload (Some (demo_graph ''g1'' ''one'')) demo_io (demo_loader [demo_file ''a.txt'', demo_file ''b.txt''] {''c.txt-1''}))) = {''c.txt-1''}
   \<and> error_doc (final (handleUpload (Some (demo_graph ''g1'' ''one'')) demo_io (demo_loader [demo_file ''a.txt'', demo_file ''b.txt''] {''c.txt-1''})))
       = Some ''Failed to upload a.txt: timeout''
   \<and> error_doc (fst (upload_file (demo_graph ''g1'' ''one'')
         ((demo_loader [demo_file ''a.txt'', demo_file ''b.txt''] {''c.txt-1''})\<lparr>error_doc := Some ''Failed to upload a.txt: timeout''\<rparr>, [])
         (demo_file ''b.txt'', demo_io 1)))
       = Some ''Failed to upload a.txt: timeout''"
  using upload_bookkeeping [where fl = "demo_file ''a.txt''" and io = "demo_io 0"
      and s = "demo_loader [demo_file ''a.txt'', demo_file ''b.txt''] {''c.txt-1''}" and sg = "demo_graph ''g1'' ''one''" and acc = "(demo_loader [demo_file ''a.txt'', demo_file ''b.txt''] {''c.txt-1''}, [])" and ios = demo_io
      and st = "demo_loader [demo_file ''a.txt'', demo_file ''b.txt''] {''c.txt-1''}" and k = 0 and e = "ErrorInstance ''timeout''" and m = "''timeout''"]
    upload_bookkeeping [where fl = "demo_file ''b.txt''" and io = "demo_io 1"
      and sg = "demo_graph ''g1'' ''one''"
      and acc = "((demo_loader [demo_file ''a.txt'', demo_file ''b.txt''] {''c.txt-1''})\<lparr>error_doc := Some ''Failed to upload a.txt: timeout''\<rparr>, [])"]
    demo_later_uploads demo_bookkeeping demo_bookkeeping_runs
  by blast


section \<open>The timeline filter\<close>

lemma circular_layout_length: "length (circular_layout w h ns) = length ns"
  by (simp add: circular_layout_def Let_def)

lemma circular_layout_nth:
  "i < length ns \<Longrightarrow>
     circular_layout w h ns ! i
       = (ns ! i)\<lparr>node_x := Some (w / 2 + min w h / 3 * cos (2 * pi * real i / real (length ns))),
                  node_y := Some (h / 2 + min w h / 3 * sin (2 * pi * real i / real (length ns)))\<rparr>"
proof -
  assume i: "i < length ns"
  have code: "circular_layout w h ns ! i
       = (ns ! i)\<lparr>node_x := Some (w / 2 + min w h / 3 * cos (real i / real (length ns) * 2 * pi)),
                  node_y := Some (h / 2 + min w h / 3 * sin (real i / real (length ns) * 2 * pi))\<rparr>"
    using i by (simp add: circular_layout_def Let_def nth_enumerate_eq)
  have ang: "real i / real (length ns) * 2 * pi = 2 * pi * real i / real (length ns)"
    by simp
  show ?thesis
    by (simp only: code ang)
qed

lemma circular_layout_ids: "map id_node (circular_layout w h ns) = map id_node ns"
  by (rule nth_equalityI) (simp_all add: circular_layout_length circular_layout_nth)

lemma timeline_nodes_set:
  "set (timeline_nodes getTime t ns)
     = {n \<in> set ns. \<exists>tm. getTime (created_at_node n) = Some tm \<and> real_of_int tm \<le> t}"
  by (auto simp: timeline_nodes_def split: option.splits)

lemma timeline_edges_set:
  "set (timeline_edges kept es)
     = {e \<in> set es. source_id e \<in> id_node ` set kept \<and> target_id e \<in> id_node ` set kept}"
  by (auto simp: timeline_edges_def Let_def)

lemma circular_layout_forget:
  "map (\<lambda>n. n\<lparr>node_x := None, node_y := None\<rparr>) (circular_layout w h ns)
     = map (\<lambda>n. n\<lparr>node_x := None, node_y := None\<rparr>) ns"
  by (rule nth_equalityI) (simp_all add: circular_layout_length circular_layout_nth)

text \<open>
  C2: in timeline view mode with scrub time \<open>t = currentTime\<close>, the nodes handed to
  the renderer are exactly the nodes of the loaded data whose \<open>created_at\<close> parses to
  a time less than or equal to \<open>t\<close>, and the edges handed to it are exactly the edges
  of the loaded data whose \<open>source_id\<close> and \<open>target_id\<close> both are ids of those
  nodes, so that no rendered edge has a missing endpoint. The circular layout writes
  \<open>x\<close> and \<open>y\<close> of the node objects in place; a record carries its position, so
  for that layout the nodes are the same up to these two fields.
\<close>

theorem timeline_scene:
  assumes "viewMode st = Timeline" and "data st = Some d"
  shows "\<exists>sc. initializeVisualization getTime w h st = Some sc
     \<and> (layoutType st \<noteq> Circular \<longrightarrow>
          set (scene_nodes sc)
            = {n \<in> set (nodes d). \<exists>tm. getTime (created_at_node n) = Some tm
                 \<and> real_of_int tm \<le> currentTime st})
     \<and> (\<lambda>n. n\<lparr>node_x := None, node_y := None\<rparr>) ` set (scene_nodes sc)
          = (\<lambda>n. n\<lparr>node_x := None, node_y := None\<rparr>) `
              {n \<in> set (nodes d). \<exists>tm. getTime (created_at_node n) = Some tm
                 \<and> real_of_int tm \<le> currentTime st}
     \<and> set (scene_edges sc)
          = {e \<in> set (edges d). source_id e \<in> id_node ` set (scene_nodes sc)
                 \<and> target_id e \<in> id_node ` set (scene_nodes sc)}"
proof -
  let ?kept = "timeline_nodes getTime (currentTime st) (nodes d)"
  let ?placed = "case layoutType st of Circular \<Rightarrow> circular_layout w h ?kept
                   | Hierarchical \<Rightarrow> ?kept | Force \<Rightarrow> ?kept"
  let ?sc = "\<lparr>scene_nodes = ?placed, scene_edges = timeline_edges ?kept (edges d),
              scene_layout = layoutType st\<rparr>"
  have run: "initializeVisualization getTime w h st = Some ?sc"
    using assms by (simp add: initializeVisualization_def Let_def)
  have exact: "layoutType st \<noteq> Circular \<Longrightarrow> ?placed = ?kept"
    by (cases "layoutType st") simp_all
  have forget: "map (\<lambda>n. n\<lparr>node_x := None, node_y := None\<rparr>) ?placed
      = map (\<lambda>n. n\<lparr>node_x := None, node_y := None\<rparr>) ?kept"
    by (cases "layoutType st") (simp_all add: circular_layout_forget)
  have ids: "map id_node ?placed = map id_node ?kept"
    by (cases "layoutType st") (simp_all add: circular_layout_ids)
  have "(\<lambda>n. n\<lparr>node_x := None, node_y := None\<rparr>) ` set ?placed
      = (\<lambda>n. n\<lparr>node_x := None, node_y := None\<rparr>) ` set ?kept"
    using arg_cong [OF forget, of set] by simp
  moreover have "id_node ` set ?placed = id_node ` set ?kept"
    using arg_cong [OF ids, of set] by simp
  ultimately show ?thesis
    using run exact by (simp add: timeline_nodes_set timeline_edges_set)
qed


lemma demo_timeline_run:
  "initializeVisualization demo_getTime 600 300
       (demo_viz Timeline Force 15 False
         (Some \<lparr>nodes = [demo_node ''a'' (Some ''1970-01-01T00:00:00.010Z''),
                          demo_node ''b'' (Some ''1970-01-01T00:00:00.020Z''),
                          demo_node ''c'' None],
                edges = [demo_edge ''a'' ''a'', demo_edge ''a'' ''b'', demo_edge ''c'' ''a'']\<rparr>))
     = Some \<lparr>scene_nodes = [demo_node ''a'' (Some ''1970-01-01T00:00:00.010Z'')],
             scene_edges = [demo_edge ''a'' ''a''], scene_layout = Force\<rparr>"
    by (simp add: initializeVisualization_def timeline_nodes_def timeline_edges_def Let_def
        demo_viz_def demo_node_def demo_edge_def demo_getTime_def)


lemma demo_timeline_mode:
  "viewMode (demo_viz Timeline Force 15 False
         (Some \<lparr>nodes = [demo_node ''a'' (Some ''1970-01-01T00:00:00.010Z''),
                          demo_node ''b'' (Some ''1970-01-01T00:00:00.020Z''),
                          demo_node ''c'' None],
                edges = [demo_edge ''a'' ''a'', demo_edge ''a'' ''b'', demo_edge ''c'' ''a'']\<rparr>)) = Timeline"
  by (simp add: demo_viz_def)

lemma demo_timeline_layout:
  "layoutType (demo_viz Timeline Force 15 False
         (Some \<lparr>nodes = [demo_node ''a'' (Some ''1970-01-01T00:00:00.010Z''),
                          demo_node ''b'' (Some ''1970-01-01T00:00:00.020Z''),
                          demo_node ''c'' None],
                edges = [demo_edge ''a'' ''a'', demo_edge ''a'' ''b'', demo_edge ''c'' ''a'']\<rparr>)) \<noteq> Circular"
  by (simp add: demo_viz_def)

lemma demo_timeline_data:
  "data (demo_viz Timeline Force 15 False
         (Some \<lparr>nodes = [demo_node ''a'' (Some ''1970-01-01T00:00:00.010Z''),
                          demo_node ''b'' (Some ''1970-01-01T00:00:00.020Z''),
                          demo_node ''c'' None],
                edges = [demo_edge ''a'' ''a'', demo_edge ''a'' ''b'', demo_edge ''c'' ''a'']\<rparr>)) = Some \<lparr>nodes = [demo_node ''a'' (Some ''1970-01-01T00:00:00.010Z''),
                          demo_node ''b'' (Some ''1970-01-01T00:00:00.020Z''),
                          demo_node ''c'' None],
                edges = [demo_edge ''a'' ''a'', demo_edge ''a'' ''b'', demo_edge ''c'' ''a'']\<rparr>"
  by (simp add: demo_viz_def)

theorem timeline_scene_witness:
  "viewMode (demo_viz Timeline Force 15 False
      (Some \<lparr>nodes = [demo_node ''a'' (Some ''1970-01-01T00:00:00.010Z''),
                       demo_node ''b'' (Some ''1970-01-01T00:00:00.020Z''),
                       demo_node ''c'' None],
             edges = [demo_edge ''a'' ''a'', demo_edge ''a'' ''b'', demo_edge ''c'' ''a'']\<rparr>))
     = Timeline
   \<and> layoutType (demo_viz Timeline Force 15 False
      (Some \<lparr>nodes = [demo_node ''a'' (Some ''1970-01-01T00:00:00.010Z''),
                       demo_node ''b'' (Some ''1970-01-01T00:00:00.020Z''),
                       demo_node ''c'' None],
             edges = [demo_edge ''a'' ''a'', demo_edge ''a'' ''b'', demo_edge ''c'' ''a'']\<rparr>))
     \<noteq> Circular
   \<and> initializeVisualization demo_getTime 600 300
       (demo_viz Timeline Force 15 False
         (Some \<lparr>nodes = [demo_node ''a'' (Some ''1970-01-01T00:00:00.010Z''),
                          demo_node ''b'' (Some ''1970-01-01T00:00:00.020Z''),
                          demo_node ''c'' None],
                edges = [demo_edge ''a'' ''a'', demo_edge ''a'' ''b'', demo_edge ''c'' ''a'']\<rparr>))
     = Some \<lparr>scene_nodes = [demo_node ''a'' (Some ''1970-01-01T00:00:00.010Z'')],
             scene_edges = [demo_edge ''a'' ''a''], scene_layout = Force\<rparr>"
  using timeline_scene [OF demo_timeline_mode demo_timeline_data, of demo_getTime 600 300]
    demo_timeline_run demo_timeline_mode demo_timeline_layout
  by blast


section \<open>The circular layout\<close>

text \<open>
  C3: with the circular layout selected, node \<open>i\<close> of the \<open>n\<close> filtered nodes
  (\<open>0 \<le> i < n\<close>) is handed to the simulation at
  \<open>(width/2 + r cos (2 pi i / n), height/2 + r sin (2 pi i / n))\<close> with
  \<open>r = min width height / 3\<close>, and is otherwise the filtered node; the filtered nodes
  are those of the timeline filter in timeline mode and all loaded nodes otherwise.
  Numbers are real numbers here, so the statement is about the exact values of these
  expressions.
\<close>

theorem circular_positions:
  assumes "layoutType st = Circular" and "data st = Some d"
  shows "\<exists>sc. initializeVisualization getTime w h st = Some sc
     \<and> length (scene_nodes sc)
         = length (if viewMode st = Timeline
                   then timeline_nodes getTime (currentTime st) (nodes d) else nodes d)
     \<and> (\<forall>i<length (scene_nodes sc).
          scene_nodes sc ! i
            = ((if viewMode st = Timeline
                then timeline_nodes getTime (currentTime st) (nodes d) else nodes d) ! i)
              \<lparr>node_x := Some (w / 2 + min w h / 3
                                 * cos (2 * pi * real i / real (length (scene_nodes sc)))),
               node_y := Some (h / 2 + min w h / 3
                                 * sin (2 * pi * real i / real (length (scene_nodes sc))))\<rparr>)"
proof -
  let ?filtered = "if viewMode st = Timeline
                   then timeline_nodes getTime (currentTime st) (nodes d) else nodes d"
  have "initializeVisualization getTime w h st
      = Some \<lparr>scene_nodes = circular_layout w h ?filtered,
              scene_edges = (if viewMode st = Timeline
                             then timeline_edges ?filtered (edges d) else edges d),
              scene_layout = Circular\<rparr>"
    using assms by (simp add: initializeVisualization_def Let_def)
  then show ?thesis
    by (simp add: circular_layout_length circular_layout_nth)
qed

lemma three_quarter_turn: "cos (pi * 3 / 2) = 0 \<and> sin (pi * 3 / 2) = - 1"
proof -
  have "pi * 3 / 2 = 3 / 2 * pi" by simp
  then show ?thesis by (simp only: cos_3over2_pi sin_3over2_pi)
qed

theorem circular_positions_witness:
  "layoutType (demo_viz GraphView Circular 0 False
      (Some \<lparr>nodes = [demo_node ''a'' None, demo_node ''b'' None, demo_node ''c'' None,
                      demo_node ''d'' None], edges = []\<rparr>)) = Circular
   \<and> initializeVisualization demo_getTime 600 300
       (demo_viz GraphView Circular 0 False
          (Some \<lparr>nodes = [demo_node ''a'' None, demo_node ''b'' None, demo_node ''c'' None,
                          demo_node ''d'' None], edges = []\<rparr>))
     = Some \<lparr>scene_nodes =
               [(demo_node ''a'' None)\<lparr>node_x := Some 400, node_y := Some 150\<rparr>,
                (demo_node ''b'' None)\<lparr>node_x := Some 300, node_y := Some 250\<rparr>,
                (demo_node ''c'' None)\<lparr>node_x := Some 200, node_y := Some 150\<rparr>,
                (demo_node ''d'' None)\<lparr>node_x := Some 300, node_y := Some 50\<rparr>],
             scene_edges = [], scene_layout = Circular\<rparr>"
  using circular_positions [of "demo_viz GraphView Circular 0 False
      (Some \<lparr>nodes = [demo_node ''a'' None, demo_node ''b'' None, demo_node ''c'' None,
                      demo_node ''d'' None], edges = []\<rparr>)"
      "\<lparr>nodes = [demo_node ''a'' None, demo_node ''b'' None, demo_node ''c'' None,
                      demo_node ''d'' None], edges = []\<rparr>" demo_getTime 600 300]
  by (simp add: initializeVisualization_def circular_layout_def Let_def demo_viz_def
      enumerate_eq_zip upt_rec numeral_eq_Suc three_quarter_turn)


section \<open>Timeline playback\<close>







lemma timeRange_step [simp]: "timeRange (playback_step st) = timeRange st"
  by (simp add: playback_step_def Let_def)

lemma viewMode_step [simp]: "viewMode (playback_step st) = viewMode st"
  by (simp add: playback_step_def Let_def)

lemma timeRange_tick [simp]: "timeRange (interval_tick st) = timeRange st"
  by (simp add: interval_tick_def)

lemma viewMode_tick [simp]: "viewMode (interval_tick st) = viewMode st"
  by (simp add: interval_tick_def)

lemma timeRange_playback [simp]: "timeRange (playback n st) = timeRange st"
  by (induction n arbitrary: st) simp_all

lemma viewMode_playback [simp]: "viewMode (playback n st) = viewMode st"
  by (induction n arbitrary: st) simp_all














lemma demo_tenth: "(0::real) < 1 / 10 \<and> (1::real) / 10 \<noteq> 0"
  by simp





end
